theory Spec2Isabelle
  imports Complex_Main "HOL-Library.Char_ord" "HOL-Library.List_Lexorder" "HOL-Library.Multiset"
begin

section \<open>Business plan simulator: scoring block and idempotent save\<close>

text \<open>
  The embedding follows \<^verbatim>\<open>business_plan_simulator_full.py\<close>. Conventions:
  \<^item> Python \<^verbatim>\<open>int\<close> is \<^typ>\<open>int\<close>; a Python \<^verbatim>\<open>float\<close> is the \<^typ>\<open>real\<close> it stands for, and
    every operation on floats rounds its exact result to the nearest double (section
    "Double-precision arithmetic"); overflow, infinities and NaN are outside the model, and
    the sign of a zero is kept where the code can see it, in the save signature;
  \<^item> Python \<^verbatim>\<open>str\<close> is \<^typ>\<open>string\<close>, a non-ASCII character being its UTF-8 bytes;
  \<^item> the messages built with f-strings are constructors of a datatype that carry the
    numbers the f-string formats (the formatting itself is display only).
\<close>

subsection \<open>Form inputs\<close>

text \<open>The widgets of sections 1, 2 and 4 of the form (lines 573-605, 613-617, 829-831).\<close>

record form_inputs =
  candidate_name :: string
  candidate_email :: string
  years_experience :: int
  current_role :: string
  candidate_location :: string
  current_employer :: string
  current_market :: string
  currency :: string
  base_salary :: int
  last_bonus :: int
  current_number_clients :: int
  current_assets :: real
  nnm_y1 :: real
  nnm_y2 :: real
  nnm_y3 :: real
  roa_y1 :: real
  roa_y2 :: real
  roa_y3 :: real

text \<open>One entry of \<^verbatim>\<open>st.session_state.prospects_list\<close> (lines 730-738).\<close>

record prospect =
  p_name :: string
  p_source :: string
  p_wealth :: real
  p_best :: real
  p_worst :: real

subsection \<open>Double-precision arithmetic\<close>

text \<open>
  Rounding to the nearest integer, a tie to the even one: the rule of the binary
  operations of a double and of \<^verbatim>\<open>f"{v:.6f}"\<close>.
\<close>

definition round_half_even :: "real \<Rightarrow> int" where
  "round_half_even x =
     (let f = \<lfloor>x\<rfloor>; r = x - of_int f
      in if r < 1 / 2 then f else if r > 1 / 2 then f + 1 else if even f then f else f + 1)"

definition pow2 :: "int \<Rightarrow> real" where
  "pow2 e = (if 0 \<le> e then 2 ^ nat e else 1 / 2 ^ nat (- e))"

text \<open>
  A double has 53 significant bits: the doubles near \<open>x\<close> are the multiples of
  \<open>pow2 (float_exponent x)\<close>, the unit in the last place of \<open>x\<close> (at least \<open>2^-1074\<close>, the
  step of the subnormal numbers). \<open>double_of x\<close> is the double nearest to \<open>x\<close>, what a
  float literal, the conversion of an \<^verbatim>\<open>int\<close> and each operation below return.
\<close>

definition float_exponent :: "real \<Rightarrow> int" where
  "float_exponent x = max (\<lfloor>log 2 \<bar>x\<bar>\<rfloor> - 52) (- 1074)"

definition double_of :: "real \<Rightarrow> real" where
  "double_of x =
     (if x = 0 then 0
      else real_of_int (round_half_even (x / pow2 (float_exponent x))) * pow2 (float_exponent x))"

definition fadd :: "real \<Rightarrow> real \<Rightarrow> real" where
  "fadd x y = double_of (x + y)"

definition fsub :: "real \<Rightarrow> real \<Rightarrow> real" where
  "fsub x y = double_of (x - y)"

definition fmul :: "real \<Rightarrow> real \<Rightarrow> real" where
  "fmul x y = double_of (x * y)"

definition fdiv :: "real \<Rightarrow> real \<Rightarrow> real" where
  "fdiv x y = double_of (x / y)"

subsection \<open>Scoring block (lines 884-966)\<close>

text \<open>
  The entries of \<^verbatim>\<open>reasons_pos\<close>, \<^verbatim>\<open>reasons_neg\<close> and \<^verbatim>\<open>flags\<close>, one constructor for
  each string literal or f-string of the block, in source order.
\<close>

datatype message =
    Experience_ge7                    \<comment> \<open>"Experience >=7 years in market"\<close>
  | Experience_6                      \<comment> \<open>"Experience 6 years"\<close>
  | Experience_lt6                    \<comment> \<open>"Experience <6 years"\<close>
  | AUM_meets_CH_250M                 \<comment> \<open>"AUM meets CH 250M target"\<close>
  | AUM_ge real                       \<comment> \<open>f"AUM >= {aum_min}M"\<close>
  | AUM_shortfall real                \<comment> \<open>f"AUM shortfall: {max(0.0, aum_min - current_assets):.0f}M"\<close>
  | Comp_hunter                       \<comment> \<open>"Comp indicates hunter profile"\<close>
  | Comp_low                          \<comment> \<open>"Low comp indicates inherited/low portability"\<close>
  | Comp_neutral                      \<comment> \<open>"Comp neutral - clarify origin of book"\<close>
  | ROA_excellent real                \<comment> \<open>f"Avg ROA {avg_roa:.2f}% (excellent)"\<close>
  | ROA_acceptable real               \<comment> \<open>f"Avg ROA {avg_roa:.2f}% (acceptable)"\<close>
  | ROA_low real                      \<comment> \<open>f"Avg ROA {avg_roa:.2f}% is low"\<close>
  | Clients_not_provided              \<comment> \<open>"Clients not provided"\<close>
  | Clients_high int                  \<comment> \<open>f"High client count ({current_number_clients}) - likely lower segment"\<close>
  | Clients_appropriate               \<comment> \<open>"Client load appropriate (<=80)"\<close>
  | Prospects_both_zero               \<comment> \<open>"Prospects & NNM Y1 both zero"\<close>
  | Prospects_match real real         \<comment> \<open>f"Prospects Best NNM {best_sum:.1f}M ~ NNM Y1 {nnm_y1_val:.1f}M"\<close>
  | Prospects_deviate real real int   \<comment> \<open>f"Prospects {best_sum:.1f}M vs NNM Y1 {nnm_y1_val:.1f}M (> {int(tolerance_pct)}% dev)"\<close>

text \<open>The four variables the block updates: \<^verbatim>\<open>score\<close> and the three lists.\<close>

record tally =
  score :: int
  reasons_pos :: "message list"
  reasons_neg :: "message list"
  flags :: "message list"

definition tally0 :: tally where
  "tally0 = \<lparr>score = 0, reasons_pos = [], reasons_neg = [], flags = []\<rparr>"

definition bump :: "int \<Rightarrow> tally \<Rightarrow> tally" where
  "bump n t = t\<lparr>score := score t + n\<rparr>"

definition pos :: "message \<Rightarrow> tally \<Rightarrow> tally" where
  "pos m t = t\<lparr>reasons_pos := reasons_pos t @ [m]\<rparr>"

definition neg :: "message \<Rightarrow> tally \<Rightarrow> tally" where
  "neg m t = t\<lparr>reasons_neg := reasons_neg t @ [m]\<rparr>"

definition flag :: "message \<Rightarrow> tally \<Rightarrow> tally" where
  "flag m t = t\<lparr>flags := flags t @ [m]\<rparr>"

text \<open>
  Lines 885-886 and 944: \<^verbatim>\<open>x or 0.0\<close> is \<open>x\<close> for a number, zero included, so the guards
  leave no trace in the model.
\<close>

definition avg_roa :: "form_inputs \<Rightarrow> real" where
  "avg_roa inp = fdiv (fadd (fadd (roa_y1 inp) (roa_y2 inp)) (roa_y3 inp)) 3"

text \<open>Lines 889-893: both branches assign 200.0.\<close>

definition aum_min :: "string \<Rightarrow> real" where
  "aum_min market = (if market = ''CH Onshore'' then 200 else 200)"

definition score_experience :: "form_inputs \<Rightarrow> tally \<Rightarrow> tally" where
  "score_experience inp t =
     (if years_experience inp \<ge> 7 then pos Experience_ge7 (bump 2 t)
      else if years_experience inp \<ge> 6 then pos Experience_6 (bump 1 t)
      else neg Experience_lt6 t)"

definition score_aum :: "form_inputs \<Rightarrow> tally \<Rightarrow> tally" where
  "score_aum inp t =
     (if current_assets inp \<ge> aum_min (current_market inp) then
        (if current_market inp = ''CH Onshore'' \<and> current_assets inp \<ge> 250
         then pos AUM_meets_CH_250M (bump 2 t)
         else pos (AUM_ge (aum_min (current_market inp))) (bump 2 t))
      else neg (AUM_shortfall (max 0 (fsub (aum_min (current_market inp)) (current_assets inp))))
             t)"

definition score_comp :: "form_inputs \<Rightarrow> tally \<Rightarrow> tally" where
  "score_comp inp t =
     (if base_salary inp > 200000 \<and> last_bonus inp > 100000 then pos Comp_hunter (bump 2 t)
      else if base_salary inp \<le> 150000 \<and> last_bonus inp \<le> 50000 then neg Comp_low (bump (- 1) t)
      else flag Comp_neutral t)"

definition score_roa :: "form_inputs \<Rightarrow> tally \<Rightarrow> tally" where
  "score_roa inp t =
     (if avg_roa inp \<ge> 1 then pos (ROA_excellent (avg_roa inp)) (bump 2 t)
      else if avg_roa inp \<ge> double_of (8 / 10)
        then pos (ROA_acceptable (avg_roa inp)) (bump 1 t)
      else neg (ROA_low (avg_roa inp)) t)"

definition score_clients :: "form_inputs \<Rightarrow> tally \<Rightarrow> tally" where
  "score_clients inp t =
     (if current_number_clients inp = 0 then flag Clients_not_provided t
      else if current_number_clients inp > 80
        then neg (Clients_high (current_number_clients inp)) t
      else pos Clients_appropriate (bump 1 t))"

text \<open>
  Lines 940-947. The sum of the column \<^verbatim>\<open>"Best NNM (M)"\<close> of the prospects table, 0.0 for
  the empty table. The sum is computed by pandas: \<open>col_sum\<close> is what its \<^verbatim>\<open>sum\<close> returns
  for a column of floats (the order in which it adds is the library's).
  \<^verbatim>\<open>tolerance_pct = 10\<close> is assigned just before the comparison (the recruiter's slider is
  read after the block has run).
\<close>

definition best_sum :: "(real list \<Rightarrow> real) \<Rightarrow> prospect list \<Rightarrow> real" where
  "best_sum col_sum ps = (if ps = [] then 0 else col_sum (map p_best ps))"

definition tolerance_pct :: int where
  "tolerance_pct = 10"

definition tol :: real where
  "tol = fdiv (real_of_int tolerance_pct) 100"

definition score_prospects ::
  "(real list \<Rightarrow> real) \<Rightarrow> form_inputs \<Rightarrow> prospect list \<Rightarrow> tally \<Rightarrow> tally" where
  "score_prospects col_sum inp ps t =
     (if nnm_y1 inp = 0 \<and> best_sum col_sum ps = 0 then flag Prospects_both_zero t
      else if \<bar>fsub (best_sum col_sum ps) (nnm_y1 inp)\<bar>
                \<le> fmul tol (max (nnm_y1 inp) (double_of (1 / 10 ^ 9)))
        then pos (Prospects_match (best_sum col_sum ps) (nnm_y1 inp)) (bump 1 t)
      else neg (Prospects_deviate (best_sum col_sum ps) (nnm_y1 inp) tolerance_pct) t)"

text \<open>Lines 895-958 in order.\<close>

definition scoring_block :: "(real list \<Rightarrow> real) \<Rightarrow> form_inputs \<Rightarrow> prospect list \<Rightarrow> tally" where
  "scoring_block col_sum inp ps =
     score_prospects col_sum inp ps
       (score_clients inp (score_roa inp (score_comp inp (score_aum inp
          (score_experience inp tally0)))))"

text \<open>
  Lines 960-966. The three literals start with a coloured-circle emoji (U+1F7E2, U+1F7E1,
  U+1F534), written here as its UTF-8 bytes.
\<close>

definition strong_candidate :: string where
  "strong_candidate = [CHR 0xF0, CHR 0x9F, CHR 0x9F, CHR 0xA2] @ '' Strong Candidate''"

definition medium_potential :: string where
  "medium_potential = [CHR 0xF0, CHR 0x9F, CHR 0x9F, CHR 0xA1] @ '' Medium Potential''"

definition weak_candidate :: string where
  "weak_candidate = [CHR 0xF0, CHR 0x9F, CHR 0x94, CHR 0xB4] @ '' Weak Candidate''"

definition verdict :: "int \<Rightarrow> string" where
  "verdict s = (if s \<ge> 7 then strong_candidate
                else if s \<ge> 4 then medium_potential
                else weak_candidate)"

subsection \<open>The candidate dictionary (lines 42-50, 1026-1061)\<close>

text \<open>
  A value of the dictionary is a number (\<^verbatim>\<open>int\<close> or \<^verbatim>\<open>float\<close>) or a string; \<open>NegZero\<close> is
  the float \<^verbatim>\<open>-0.0\<close>, which compares equal to \<^verbatim>\<open>0.0\<close> and is written differently. The
  dictionary is an association list, so that the order in which the fields are supplied is
  part of the data; \<^verbatim>\<open>d.get(k, default)\<close> reads it.
\<close>

datatype pyval = Num real | NegZero | Str string

type_synonym pydict = "(string \<times> pyval) list"

definition dict_get :: "pydict \<Rightarrow> string \<Rightarrow> pyval \<Rightarrow> pyval" where
  "dict_get d k dflt = (case map_of d k of Some v \<Rightarrow> v | None \<Rightarrow> dflt)"

definition HEADER_ORDER :: "string list" where
  "HEADER_ORDER =
    [''Timestamp'', ''Candidate Name'', ''Candidate Email'', ''Current Role'', ''Candidate Location'',
     ''Current Employer'', ''Current Market'', ''Currency'', ''Base Salary'', ''Last Bonus'',
     ''Current Number of Clients'', ''Current AUM (M CHF)'',
     ''NNM Year 1 (M CHF)'', ''NNM Year 2 (M CHF)'', ''NNM Year 3 (M CHF)'',
     ''Revenue Year 1 (CHF)'', ''Revenue Year 2 (CHF)'', ''Revenue Year 3 (CHF)'',
     ''Total Revenue 3Y (CHF)'', ''Profit Margin (%)'', ''Total Profit 3Y (CHF)'',
     ''Score'', ''AI Evaluation Notes'']"

text \<open>
  The float expressions of \<^verbatim>\<open>_build_data_dict\<close>, each operation in the order Python
  evaluates it: \<^verbatim>\<open>nnm * roa / 100 * 1_000_000\<close> and \<^verbatim>\<open>base_salary * 1.25 * 3\<close>.
\<close>

definition revenue :: "real \<Rightarrow> real \<Rightarrow> real" where
  "revenue nnm roa = fmul (fdiv (fmul nnm roa) 100) 1000000"

definition fixed_cost_3y :: "form_inputs \<Rightarrow> real" where
  "fixed_cost_3y inp = fmul (fmul (double_of (real_of_int (base_salary inp))) (125 / 100)) 3"

definition total_rev_3y :: "form_inputs \<Rightarrow> real" where
  "total_rev_3y inp =
     fmul (fdiv (fadd (fadd (fmul (nnm_y1 inp) (roa_y1 inp)) (fmul (nnm_y2 inp) (roa_y2 inp)))
                   (fmul (nnm_y3 inp) (roa_y3 inp))) 100) 1000000"

definition profit_margin_pct :: "form_inputs \<Rightarrow> real" where
  "profit_margin_pct inp =
     (if total_rev_3y inp > 0
      then fmul (fdiv (fsub (total_rev_3y inp) (fixed_cost_3y inp)) (total_rev_3y inp)) 100
      else 0)"

definition total_profit_3y :: "form_inputs \<Rightarrow> real" where
  "total_profit_3y inp =
     fsub (fadd (fadd (revenue (nnm_y1 inp) (roa_y1 inp)) (revenue (nnm_y2 inp) (roa_y2 inp)))
             (revenue (nnm_y3 inp) (roa_y3 inp)))
       (fixed_cost_3y inp)"

text \<open>
  \<^verbatim>\<open>_build_data_dict\<close>; \<open>now\<close> is the text of \<^verbatim>\<open>datetime.now()\<close>, \<open>sc\<close> and \<open>vd\<close> are the
  score and the verdict read back from the session.
\<close>

definition build_data_dict :: "string \<Rightarrow> form_inputs \<Rightarrow> int \<Rightarrow> string \<Rightarrow> pydict" where
  "build_data_dict now inp sc vd =
    [(''Timestamp'', Str now),
     (''Candidate Name'', Str (candidate_name inp)),
     (''Candidate Email'', Str (candidate_email inp)),
     (''Current Role'', Str (current_role inp)),
     (''Candidate Location'', Str (candidate_location inp)),
     (''Current Employer'', Str (current_employer inp)),
     (''Current Market'', Str (current_market inp)),
     (''Currency'', Str (currency inp)),
     (''Base Salary'', Num (real_of_int (base_salary inp))),
     (''Last Bonus'', Num (real_of_int (last_bonus inp))),
     (''Current Number of Clients'', Num (real_of_int (current_number_clients inp))),
     (''Current AUM (M CHF)'', Num (current_assets inp)),
     (''NNM Year 1 (M CHF)'', Num (nnm_y1 inp)),
     (''NNM Year 2 (M CHF)'', Num (nnm_y2 inp)),
     (''NNM Year 3 (M CHF)'', Num (nnm_y3 inp)),
     (''Revenue Year 1 (CHF)'', Num (revenue (nnm_y1 inp) (roa_y1 inp))),
     (''Revenue Year 2 (CHF)'', Num (revenue (nnm_y2 inp) (roa_y2 inp))),
     (''Revenue Year 3 (CHF)'', Num (revenue (nnm_y3 inp) (roa_y3 inp))),
     (''Total Revenue 3Y (CHF)'', Num (total_rev_3y inp)),
     (''Profit Margin (%)'', Num (profit_margin_pct inp)),
     (''Total Profit 3Y (CHF)'', Num (total_profit_3y inp)),
     (''Score'', Num (real_of_int sc)),
     (''AI Evaluation Notes'', Str vd)]"

subsection \<open>The save signature (lines 82-100)\<close>

text \<open>
  \<^verbatim>\<open>f"{v:.6f}"\<close> writes the exact value of the float \<open>v\<close> with six decimals, rounding to
  nearest and a tie to the even digit: \<open>fmt6 v\<close> is the number the text spells. The text
  starts with a minus sign when the float is negative or is \<^verbatim>\<open>-0.0\<close>, also when all its
  digits are zero.
\<close>

definition fmt6 :: "real \<Rightarrow> real" where
  "fmt6 v = real_of_int (round_half_even (v * 1000000)) / 1000000"

text \<open>
  \<^verbatim>\<open>float(f"{v:.6f}")\<close> for a float of value \<open>v\<close> whose sign bit is \<open>signbit\<close>: the double
  nearest to the number of the text, and \<^verbatim>\<open>-0.0\<close> for the text \<^verbatim>\<open>-0.000000\<close>.
\<close>

definition reread6 :: "bool \<Rightarrow> real \<Rightarrow> pyval" where
  "reread6 signbit v =
     (if fmt6 v = 0 then (if signbit then NegZero else Num 0) else Num (double_of (fmt6 v)))"

text \<open>
  \<^verbatim>\<open>_canonicalize_number\<close>. \<^verbatim>\<open>float(x)\<close> is \<open>x\<close> for a float, the nearest double for an
  \<^verbatim>\<open>int\<close>, and accepts a string that spells a number: what Python's \<^verbatim>\<open>float\<close> makes of a
  string is the parameter \<open>py_float\<close>, the sign bit and the value of the float it reads,
  or \<open>None\<close> when it raises (and then \<open>x\<close> is returned as it is).
\<close>

definition canonicalize_number :: "(string \<Rightarrow> (bool \<times> real) option) \<Rightarrow> pyval \<Rightarrow> pyval" where
  "canonicalize_number py_float x =
     (case x of
        Num v \<Rightarrow> reread6 (double_of v < 0) (double_of v)
      | NegZero \<Rightarrow> reread6 True 0
      | Str s \<Rightarrow>
          (case py_float s of
             Some (signbit, v) \<Rightarrow> reread6 (signbit \<or> v < 0) v
           | None \<Rightarrow> x))"

text \<open>The local list \<^verbatim>\<open>fields\<close> of \<^verbatim>\<open>_make_signature\<close>.\<close>

definition signature_fields :: "string list" where
  "signature_fields =
    [''Candidate Name'', ''Candidate Email'', ''Current Role'', ''Candidate Location'',
     ''Current Employer'', ''Current Market'', ''Currency'', ''Base Salary'', ''Last Bonus'',
     ''Current Number of Clients'', ''Current AUM (M CHF)'',
     ''NNM Year 1 (M CHF)'', ''NNM Year 2 (M CHF)'', ''NNM Year 3 (M CHF)'',
     ''Revenue Year 1 (CHF)'', ''Revenue Year 2 (CHF)'', ''Revenue Year 3 (CHF)'',
     ''Total Revenue 3Y (CHF)'', ''Profit Margin (%)'', ''Total Profit 3Y (CHF)'']"

text \<open>
  \<^verbatim>\<open>json.dumps\<close> and \<^verbatim>\<open>hashlib.sha256\<close> are library code. The hex digest is modelled
  symbolically, as a free constructor over the payload in key order (what
  \<^verbatim>\<open>sort_keys=True\<close> serialises): two signatures are equal exactly when the canonical
  payloads are, collisions of SHA-256 being idealised away.
\<close>

datatype signature = Sha256_hexdigest "(string \<times> pyval) list"

definition payload ::
  "(string \<Rightarrow> (bool \<times> real) option) \<Rightarrow> pydict \<Rightarrow> (string \<times> pyval) list" where
  "payload py_float candidate_dict =
     map (\<lambda>k. (k, canonicalize_number py_float (dict_get candidate_dict k (Str '''')))) signature_fields"

definition make_signature :: "(string \<Rightarrow> (bool \<times> real) option) \<Rightarrow> pydict \<Rightarrow> signature" where
  "make_signature py_float candidate_dict =
     Sha256_hexdigest (sort_key fst (payload py_float candidate_dict))"

subsection \<open>The external sheet and the session (lines 212-215, 1071-1090)\<close>

text \<open>
  The worksheet is the header row (\<^verbatim>\<open>ws.row_values(1)\<close>) and the rows appended below it.
  A call of the spreadsheet client may raise: whether the next call does is an input of
  the model, and a call that raises leaves the sheet as it was.
\<close>

record sheet =
  header_cells :: "string list"
  appended_rows :: "pyval list list"

datatype api_outcome = Api_ok | Api_raises string

text \<open>The row of \<^verbatim>\<open>append_in_header_order\<close>: the record's values in the order of the header.\<close>

definition header_row :: "sheet \<Rightarrow> pydict \<Rightarrow> pyval list" where
  "header_row ws data_dict =
     (let headers = (if header_cells ws = [] then HEADER_ORDER else header_cells ws)
      in map (\<lambda>h. dict_get data_dict h (Str '''')) headers)"

definition append_in_header_order :: "api_outcome \<Rightarrow> sheet \<Rightarrow> pydict \<Rightarrow> string + sheet" where
  "append_in_header_order out ws data_dict =
     (case out of
        Api_raises e \<Rightarrow> Inl e
      | Api_ok \<Rightarrow> Inr (ws\<lparr>appended_rows := appended_rows ws @ [header_row ws data_dict]\<rparr>))"

text \<open>
  What the save section shows to the user: \<^verbatim>\<open>st.warning\<close>, \<^verbatim>\<open>st.info\<close>, \<^verbatim>\<open>st.success\<close> and
  \<^verbatim>\<open>st.error\<close> with their texts.
\<close>

datatype notice =
    Warning_no_connection          \<comment> \<open>"Google Sheet connection not available."\<close>
  | Info_already_saved             \<comment> \<open>"Already saved. No duplicate entry created."\<close>
  | Success_saved_reason string    \<comment> \<open>f"Saved to Google Sheet ({reason})."\<close>
  | Success_saved                  \<comment> \<open>"Saved to Google Sheet."\<close>
  | Error_saving string            \<comment> \<open>f"Error saving to Google Sheet: {e}"\<close>
  | Warning_not_saved string       \<comment> \<open>f"Not saved - missing: {missing_msg}"\<close>
  | Error_required_fields string   \<comment> \<open>"Please complete the required fields: " + missing_msg\<close>

text \<open>
  The text of \<^verbatim>\<open>json.dumps\<close> of the dictionary of line 1125, kept as its four entries.
\<close>

datatype autosave_key = Autosave_json string "real list" real int

text \<open>
  The module's \<^verbatim>\<open>worksheet\<close> (\<open>None\<close> when the connection failed) and the session's
  \<^verbatim>\<open>_last_sig\<close> and \<^verbatim>\<open>_autosaved_hash\<close> (\<open>None\<close> when absent or empty).
\<close>

record app_state =
  worksheet :: "sheet option"
  last_sig :: "signature option"
  autosaved_hash :: "autosave_key option"

definition save_to_sheet_if_possible ::
  "(string \<Rightarrow> (bool \<times> real) option) \<Rightarrow> api_outcome \<Rightarrow> pydict \<Rightarrow> string \<Rightarrow> app_state
     \<Rightarrow> bool \<times> notice \<times> app_state" where
  "save_to_sheet_if_possible py_float out data_dict reason s =
     (case worksheet s of
        None \<Rightarrow> (False, Warning_no_connection, s)
      | Some ws \<Rightarrow>
          (let sig = make_signature py_float data_dict
           in if last_sig s = Some sig then (False, Info_already_saved, s)
              else (case append_in_header_order out ws data_dict of
                      Inr ws' \<Rightarrow>
                        (True,
                         (if reason \<noteq> [] then Success_saved_reason reason else Success_saved),
                         s\<lparr>worksheet := Some ws', last_sig := Some sig\<rparr>)
                    | Inl e \<Rightarrow> (False, Error_saving e, s))))"

subsection \<open>Validation before a save (lines 1023-1024, 1063-1069)\<close>

text \<open>\<^verbatim>\<open>str.split(sep)\<close> for a separator of one character.\<close>

fun split_char :: "char \<Rightarrow> string \<Rightarrow> string list" where
  "split_char c [] = [[]]"
| "split_char c (x # xs) =
     (if x = c then [] # split_char c xs
      else (case split_char c xs of
              w # ws \<Rightarrow> (x # w) # ws
            | [] \<Rightarrow> [[x]]))"

definition email_valid :: "string \<Rightarrow> bool" where
  "email_valid e =
     (CHR ''@'' \<in> set e \<and>
      CHR ''.'' \<in> set (if CHR ''@'' \<in> set e then last (split_char CHR ''@'' e) else []))"

text \<open>\<^verbatim>\<open>", ".join(missing)\<close>.\<close>

fun join_comma :: "string list \<Rightarrow> string" where
  "join_comma [] = []"
| "join_comma [x] = x"
| "join_comma (x # y # ys) = x @ '', '' @ join_comma (y # ys)"

text \<open>The first option of the location box, an em dash (U+2014) on each side.\<close>

definition select_placeholder :: string where
  "select_placeholder =
     [CHR 0xE2, CHR 0x80, CHR 0x94] @ '' Select '' @ [CHR 0xE2, CHR 0x80, CHR 0x94]"

definition missing_fields :: "form_inputs \<Rightarrow> string list" where
  "missing_fields inp =
     (if \<not> email_valid (candidate_email inp) then [''Candidate Email (valid)''] else []) @
     (if candidate_location inp = select_placeholder then [''Candidate Location''] else [])"

definition inputs_ok_for_save :: "form_inputs \<Rightarrow> bool \<times> string" where
  "inputs_ok_for_save inp = (missing_fields inp = [], join_comma (missing_fields inp))"

subsection \<open>The three save triggers (lines 1118-1147)\<close>

definition current_hash :: "form_inputs \<Rightarrow> autosave_key" where
  "current_hash inp =
     Autosave_json (candidate_email inp) [nnm_y1 inp, nnm_y2 inp, nnm_y3 inp]
       (current_assets inp) (base_salary inp)"

definition autosave_always ::
  "(string \<Rightarrow> (bool \<times> real) option) \<Rightarrow> string \<Rightarrow> api_outcome \<Rightarrow> form_inputs \<Rightarrow> pydict \<Rightarrow> app_state
     \<Rightarrow> notice list \<times> app_state" where
  "autosave_always py_float mode out inp candidate_dict s =
     (if mode = ''always'' \<and> fst (inputs_ok_for_save inp) then
        (if Some (current_hash inp) \<noteq> autosaved_hash s then
           (case save_to_sheet_if_possible py_float out candidate_dict ''AUTO (always)'' s of
              (saved, n, s') \<Rightarrow>
                ([n], if saved then s'\<lparr>autosaved_hash := Some (current_hash inp)\<rparr> else s'))
         else ([], s))
      else ([], s))"

definition autosave_on_pdf ::
  "(string \<Rightarrow> (bool \<times> real) option) \<Rightarrow> string \<Rightarrow> bool \<Rightarrow> api_outcome \<Rightarrow> form_inputs \<Rightarrow> pydict
     \<Rightarrow> app_state \<Rightarrow> notice list \<times> app_state" where
  "autosave_on_pdf py_float mode download_clicked out inp candidate_dict s =
     (if mode = ''on_pdf'' \<and> download_clicked then
        (if fst (inputs_ok_for_save inp) then
           (case save_to_sheet_if_possible py_float out candidate_dict ''PDF generated'' s of
              (saved, n, s') \<Rightarrow> ([n], s'))
         else ([Warning_not_saved (snd (inputs_ok_for_save inp))], s))
      else ([], s))"

definition manual_save ::
  "(string \<Rightarrow> (bool \<times> real) option) \<Rightarrow> bool \<Rightarrow> api_outcome \<Rightarrow> form_inputs \<Rightarrow> pydict \<Rightarrow> app_state
     \<Rightarrow> notice list \<times> app_state" where
  "manual_save py_float manual_clicked out inp candidate_dict s =
     (if manual_clicked then
        (if fst (inputs_ok_for_save inp) then
           (case save_to_sheet_if_possible py_float out candidate_dict ''manual'' s of
              (saved, n, s') \<Rightarrow> ([n], s'))
         else ([Error_required_fields (snd (inputs_ok_for_save inp))], s))
      else ([], s))"

text \<open>
  One run of the save section: the three triggers in source order, \<open>out_auto\<close> and
  \<open>out_manual\<close> being what the spreadsheet client does at the automatic and at the
  manual attempt.
\<close>

definition save_section ::
  "(string \<Rightarrow> (bool \<times> real) option) \<Rightarrow> string \<Rightarrow> bool \<Rightarrow> bool \<Rightarrow> api_outcome \<Rightarrow> api_outcome
     \<Rightarrow> form_inputs \<Rightarrow> pydict \<Rightarrow> app_state \<Rightarrow> notice list \<times> app_state" where
  "save_section py_float mode download_clicked manual_clicked out_auto out_manual
       inp candidate_dict s =
     (case autosave_always py_float mode out_auto inp candidate_dict s of
        (ns1, s1) \<Rightarrow>
          (case autosave_on_pdf py_float mode download_clicked out_auto inp candidate_dict s1 of
             (ns2, s2) \<Rightarrow>
               (case manual_save py_float manual_clicked out_manual inp candidate_dict s2 of
                  (ns3, s3) \<Rightarrow> (ns1 @ ns2 @ ns3, s3))))"

subsection \<open>The spec's wording of a plausible email, and example data\<close>

text \<open>
  The specification's words for the email rule, to compare with \<open>email_valid\<close>: the text
  contains an \<^verbatim>\<open>@\<close> and a \<^verbatim>\<open>.\<close> after it.
\<close>

definition email_plausible_spec :: "string \<Rightarrow> bool" where
  "email_plausible_spec e = (CHR ''.'' \<in> set (dropWhile (\<lambda>c. c \<noteq> CHR ''@'') e))"

text \<open>
  The record of the specification's end-to-end example; the fields the example leaves
  open are filled in.
\<close>

definition example_inputs :: form_inputs where
  "example_inputs =
     \<lparr>candidate_name = ''Jane Smith'', candidate_email = ''jane.smith@bank.ch'',
      years_experience = 7, current_role = ''Relationship Manager'',
      candidate_location = ''Zurich'', current_employer = ''UBS'',
      current_market = ''CH Onshore'', currency = ''CHF'',
      base_salary = 250000, last_bonus = 150000, current_number_clients = 40,
      current_assets = 260, nnm_y1 = 10, nnm_y2 = 12, nnm_y3 = 15,
      roa_y1 = double_of (12 / 10), roa_y2 = double_of (11 / 10), roa_y3 = 1\<rparr>"

definition example_prospects :: "prospect list" where
  "example_prospects =
     [\<lparr>p_name = ''Prospect A'', p_source = ''Self Acquired'', p_wealth = 50, p_best = 6,
       p_worst = 2\<rparr>,
      \<lparr>p_name = ''Prospect B'', p_source = ''Finder'', p_wealth = 30, p_best = 45 / 10,
       p_worst = 1\<rparr>]"


text \<open>
  A plan whose revenue, 4.1 M at 3.75 percent, equals its cost, 3 years of 41000 times 1.25,
  on paper.
\<close>

definition thin_margin_inputs :: form_inputs where
  "thin_margin_inputs =
     example_inputs\<lparr>base_salary := 41000, nnm_y1 := double_of (41 / 10), nnm_y2 := 0,
       nnm_y3 := 0, roa_y1 := 375 / 100\<rparr>"

text \<open>Adding a column from left to right, starting from 0.0: a \<open>col_sum\<close> for the examples.\<close>

definition seq_sum :: "real list \<Rightarrow> real" where
  "seq_sum xs = foldl fadd 0 xs"

definition example_dict :: "string \<Rightarrow> form_inputs \<Rightarrow> pydict" where
  "example_dict now inp =
     build_data_dict now inp (score (scoring_block seq_sum inp example_prospects))
       (verdict (score (scoring_block seq_sum inp example_prospects)))"

text \<open>A connected, empty sheet with the expected header, and a fresh session.\<close>

definition example_state :: app_state where
  "example_state =
     \<lparr>worksheet = Some \<lparr>header_cells = HEADER_ORDER, appended_rows = []\<rparr>,
      last_sig = None, autosaved_hash = None\<rparr>"

text \<open>A \<open>py_float\<close> for the examples, whose strings spell no number.\<close>

definition no_number :: "string \<Rightarrow> (bool \<times> real) option" where
  "no_number s = None"

section \<open>Properties\<close>

subsection \<open>Double-precision arithmetic: evaluation\<close>

lemma round_half_even_unique:
  assumes "\<bar>x - real_of_int m\<bar> < 1 / 2"
  shows "round_half_even x = m"
proof -
  have "\<lfloor>x\<rfloor> = m \<or> \<lfloor>x\<rfloor> = m - 1" using assms by linarith
  then show ?thesis
  proof
    assume f: "\<lfloor>x\<rfloor> = m"
    then have "x - real_of_int m < 1 / 2" using assms by linarith
    then show ?thesis by (simp add: round_half_even_def f Let_def)
  next
    assume f: "\<lfloor>x\<rfloor> = m - 1"
    then have "x - real_of_int (m - 1) > 1 / 2" using assms by linarith
    then show ?thesis by (simp add: round_half_even_def f Let_def)
  qed
qed

lemma round_half_even_tie:
  assumes "x = real_of_int f + 1 / 2"
  shows "round_half_even x = (if even f then f else f + 1)"
proof -
  have "\<lfloor>x\<rfloor> = f" using assms by linarith
  then show ?thesis using assms by (simp add: round_half_even_def Let_def)
qed

lemma round_half_even_near: "\<bar>real_of_int (round_half_even x) - x\<bar> \<le> 1 / 2"
  unfolding round_half_even_def Let_def by (auto; linarith)

lemma pow2_powr: "pow2 e = 2 powr real_of_int e"
  by (simp add: pow2_def powr_real_of_int field_simps)

lemma pow2_pos: "0 < pow2 e"
  by (simp add: pow2_def)

text \<open>The unit in the last place of a number between two powers of two.\<close>

lemma float_exponent_eq:
  assumes "pow2 (e + 52) \<le> \<bar>x\<bar>" and "\<bar>x\<bar> < pow2 (e + 53)" and "- 1074 \<le> e"
  shows "float_exponent x = e"
proof -
  have pos: "0 < \<bar>x\<bar>" using assms(1) pow2_pos[of "e + 52"] by linarith
  have "\<lfloor>log 2 \<bar>x\<bar>\<rfloor> = e + 52"
  proof -
    have a: "2 powr real_of_int (e + 52) \<le> \<bar>x\<bar>" using assms(1) by (simp only: pow2_powr)
    have "real_of_int (e + 52) + 1 = real_of_int (e + 53)" by simp
    then have b: "\<bar>x\<bar> < 2 powr (real_of_int (e + 52) + 1)"
      using assms(2) by (simp only: pow2_powr)
    show ?thesis using a b pos floor_log_eq_powr_iff[of "\<bar>x\<bar>" 2 "e + 52"] by simp
  qed
  then show ?thesis using assms(3) by (simp add: float_exponent_def)
qed

text \<open>
  How a concrete rounding is checked: the binade of \<open>x\<close>, and the multiple of its unit that
  is nearest, or the even one of the two nearest at a tie.
\<close>

lemma double_of_eq:
  assumes "pow2 (e + 52) \<le> \<bar>x\<bar>" and "\<bar>x\<bar> < pow2 (e + 53)" and "- 1074 \<le> e"
    and "\<bar>x / pow2 e - real_of_int m\<bar> < 1 / 2"
  shows "double_of x = real_of_int m * pow2 e"
proof -
  have "x \<noteq> 0" using assms(1) pow2_pos[of "e + 52"] by auto
  then show ?thesis
    by (simp add: double_of_def float_exponent_eq[OF assms(1-3)]
        round_half_even_unique[OF assms(4)])
qed

lemma double_of_tie:
  assumes "pow2 (e + 52) \<le> \<bar>x\<bar>" and "\<bar>x\<bar> < pow2 (e + 53)" and "- 1074 \<le> e"
    and "x / pow2 e = real_of_int f + 1 / 2" and "even m" and "m = f \<or> m = f + 1"
  shows "double_of x = real_of_int m * pow2 e"
proof -
  have "x \<noteq> 0" using assms(1) pow2_pos[of "e + 52"] by auto
  moreover have "round_half_even (x / pow2 e) = m"
    using assms(5,6) by (auto simp: round_half_even_tie[OF assms(4)])
  ultimately show ?thesis
    by (simp add: double_of_def float_exponent_eq[OF assms(1-3)])
qed

lemma round_half_even_nonneg: "0 \<le> x \<Longrightarrow> 0 \<le> round_half_even x"
  by (simp add: round_half_even_def Let_def)

lemma double_of_nonneg: "0 \<le> x \<Longrightarrow> 0 \<le> double_of x"
  using pow2_pos[of "float_exponent x"]
  by (simp add: double_of_def round_half_even_nonneg)

subsection \<open>Double-precision arithmetic: the values of the examples\<close>

lemma double_12: "double_of (12 / 10) = 5404319552844595 / 4503599627370496"
proof -
  have "double_of (12 / 10) = real_of_int 5404319552844595 * pow2 (- 52)"
    by (rule double_of_eq) (simp_all add: pow2_def)
  then show ?thesis by (simp add: pow2_def)
qed

lemma double_11: "double_of (11 / 10) = 2476979795053773 / 2251799813685248"
proof -
  have "double_of (11 / 10) = real_of_int 4953959590107546 * pow2 (- 52)"
    by (rule double_of_eq) (simp_all add: pow2_def)
  then show ?thesis by (simp add: pow2_def)
qed

lemma double_08: "double_of (8 / 10) = 3602879701896397 / 4503599627370496"
proof -
  have "double_of (8 / 10) = real_of_int 7205759403792794 * pow2 (- 53)"
    by (rule double_of_eq) (simp_all add: pow2_def)
  then show ?thesis by (simp add: pow2_def)
qed


lemma double_eps: "double_of (1 / 10 ^ 9) = 4835703278458517 / 4835703278458516698824704"
proof -
  have "double_of (1 / 10 ^ 9) = real_of_int 4835703278458517 * pow2 (- 82)"
    by (rule double_of_eq) (simp_all add: pow2_def)
  then show ?thesis by (simp add: pow2_def)
qed

lemma roa_sum_1: "fadd (5404319552844595 / 4503599627370496) (2476979795053773 / 2251799813685248) = 2589569785738035 / 1125899906842624"
proof -
  have "double_of (5404319552844595 / 4503599627370496 + 2476979795053773 / 2251799813685248) = real_of_int 5179139571476070 * pow2 (- 51)"
    by (rule double_of_tie[where f = 5179139571476070]) (simp_all add: pow2_def)
  then show ?thesis by (simp add: fadd_def pow2_def)
qed

lemma roa_sum_2: "fadd (2589569785738035 / 1125899906842624) 1 = 3715469692580659 / 1125899906842624"
proof -
  have "double_of (2589569785738035 / 1125899906842624 + 1) = real_of_int 7430939385161318 * pow2 (- 51)"
    by (rule double_of_eq) (simp_all add: pow2_def)
  then show ?thesis by (simp add: fadd_def pow2_def)
qed

lemma roa_mean: "fdiv (3715469692580659 / 1125899906842624) 3 = 4953959590107545 / 4503599627370496"
proof -
  have "double_of ((3715469692580659 / 1125899906842624) / 3) = real_of_int 4953959590107545 * pow2 (- 52)"
    by (rule double_of_eq) (simp_all add: pow2_def)
  then show ?thesis by (simp add: fdiv_def pow2_def)
qed

lemma tol_value: "fdiv 10 100 = 3602879701896397 / 36028797018963968"
proof -
  have "double_of (10 / 100) = real_of_int 7205759403792794 * pow2 (- 56)"
    by (rule double_of_eq) (simp_all add: pow2_def)
  then show ?thesis by (simp add: fdiv_def pow2_def)
qed

lemma best_1: "fadd 0 6 = 6"
proof -
  have "double_of (0 + 6) = real_of_int 6755399441055744 * pow2 (- 50)"
    by (rule double_of_eq) (simp_all add: pow2_def)
  then show ?thesis by (simp add: fadd_def pow2_def)
qed

lemma best_2: "fadd 6 (9 / 2) = 21 / 2"
proof -
  have "double_of (6 + 9 / 2) = real_of_int 5910974510923776 * pow2 (- 49)"
    by (rule double_of_eq) (simp_all add: pow2_def)
  then show ?thesis by (simp add: fadd_def pow2_def)
qed

lemma dev_example: "fsub (21 / 2) 10 = 1 / 2"
proof -
  have "double_of (21 / 2 - 10) = real_of_int 4503599627370496 * pow2 (- 53)"
    by (rule double_of_eq) (simp_all add: pow2_def)
  then show ?thesis by (simp add: fsub_def pow2_def)
qed

lemma limit_example: "fmul (3602879701896397 / 36028797018963968) 10 = 1"
proof -
  have "double_of ((3602879701896397 / 36028797018963968) * 10) = real_of_int 4503599627370496 * pow2 (- 52)"
    by (rule double_of_eq) (simp_all add: pow2_def)
  then show ?thesis by (simp add: fmul_def pow2_def)
qed

lemma half_sum_1: "fadd (1 / 2) (1 / 2) = 1"
proof -
  have "double_of (1 / 2 + 1 / 2) = real_of_int 4503599627370496 * pow2 (- 52)"
    by (rule double_of_eq) (simp_all add: pow2_def)
  then show ?thesis by (simp add: fadd_def pow2_def)
qed

lemma half_sum_2: "fadd 1 (1 / 2) = 3 / 2"
proof -
  have "double_of (1 + 1 / 2) = real_of_int 6755399441055744 * pow2 (- 52)"
    by (rule double_of_eq) (simp_all add: pow2_def)
  then show ?thesis by (simp add: fadd_def pow2_def)
qed

lemma half_mean: "fdiv (3 / 2) 3 = 1 / 2"
proof -
  have "double_of ((3 / 2) / 3) = real_of_int 4503599627370496 * pow2 (- 53)"
    by (rule double_of_eq) (simp_all add: pow2_def)
  then show ?thesis by (simp add: fdiv_def pow2_def)
qed





lemma aum_a: "double_of (2600000004 / 10 ^ 7) = 2286984189292517 / 8796093022208"
proof -
  have "double_of (2600000004 / 10 ^ 7) = real_of_int 4573968378585034 * pow2 (- 44)"
    by (rule double_of_eq) (simp_all add: pow2_def)
  then show ?thesis by (simp add: pow2_def)
qed

lemma aum_b: "double_of (2600000006 / 10 ^ 7) = 285873023881467 / 1099511627776"
proof -
  have "double_of (2600000006 / 10 ^ 7) = real_of_int 4573968382103472 * pow2 (- 44)"
    by (rule double_of_eq) (simp_all add: pow2_def)
  then show ?thesis by (simp add: pow2_def)
qed

lemma aum_a_fix: "double_of (2286984189292517 / 8796093022208) = 2286984189292517 / 8796093022208"
proof -
  have "double_of (2286984189292517 / 8796093022208) = real_of_int 4573968378585034 * pow2 (- 44)"
    by (rule double_of_eq) (simp_all add: pow2_def)
  then show ?thesis by (simp add: pow2_def)
qed

lemma aum_b_fix: "double_of (285873023881467 / 1099511627776) = 285873023881467 / 1099511627776"
proof -
  have "double_of (285873023881467 / 1099511627776) = real_of_int 4573968382103472 * pow2 (- 44)"
    by (rule double_of_eq) (simp_all add: pow2_def)
  then show ?thesis by (simp add: pow2_def)
qed

lemma double_260: "double_of (260) = 260"
proof -
  have "double_of (260) = real_of_int 4573968371548160 * pow2 (- 44)"
    by (rule double_of_eq) (simp_all add: pow2_def)
  then show ?thesis by (simp add: pow2_def)
qed

lemma aum_b_reread: "double_of (260000001 / 1000000) = 2286984194570173 / 8796093022208"
proof -
  have "double_of (260000001 / 1000000) = real_of_int 4573968389140346 * pow2 (- 44)"
    by (rule double_of_eq) (simp_all add: pow2_def)
  then show ?thesis by (simp add: pow2_def)
qed

lemma aum_c: "double_of (2600000001 / 10 ^ 7) = 4573968373307379 / 17592186044416"
proof -
  have "double_of (2600000001 / 10 ^ 7) = real_of_int 4573968373307379 * pow2 (- 44)"
    by (rule double_of_eq) (simp_all add: pow2_def)
  then show ?thesis by (simp add: pow2_def)
qed

lemma aum_d: "double_of (2600000002 / 10 ^ 7) = 4573968375066597 / 17592186044416"
proof -
  have "double_of (2600000002 / 10 ^ 7) = real_of_int 4573968375066597 * pow2 (- 44)"
    by (rule double_of_eq) (simp_all add: pow2_def)
  then show ?thesis by (simp add: pow2_def)
qed

lemma aum_c_fix: "double_of (4573968373307379 / 17592186044416) = 4573968373307379 / 17592186044416"
proof -
  have "double_of (4573968373307379 / 17592186044416) = real_of_int 4573968373307379 * pow2 (- 44)"
    by (rule double_of_eq) (simp_all add: pow2_def)
  then show ?thesis by (simp add: pow2_def)
qed

lemma aum_d_fix: "double_of (4573968375066597 / 17592186044416) = 4573968375066597 / 17592186044416"
proof -
  have "double_of (4573968375066597 / 17592186044416) = real_of_int 4573968375066597 * pow2 (- 44)"
    by (rule double_of_eq) (simp_all add: pow2_def)
  then show ?thesis by (simp add: pow2_def)
qed

lemma tiny: "double_of (1 / 10 ^ 7) = 944473296573929 / 9444732965739290427392"
proof -
  have "double_of (1 / 10 ^ 7) = real_of_int 7555786372591432 * pow2 (- 76)"
    by (rule double_of_eq) (simp_all add: pow2_def)
  then show ?thesis by (simp add: pow2_def)
qed

lemma tiny_fix: "double_of (944473296573929 / 9444732965739290427392) = 944473296573929 / 9444732965739290427392"
proof -
  have "double_of (944473296573929 / 9444732965739290427392) = real_of_int 7555786372591432 * pow2 (- 76)"
    by (rule double_of_eq) (simp_all add: pow2_def)
  then show ?thesis by (simp add: pow2_def)
qed

lemma tiny_neg_fix: "double_of (- (944473296573929 / 9444732965739290427392)) = - (944473296573929 / 9444732965739290427392)"
proof -
  have "double_of (- (944473296573929 / 9444732965739290427392)) = real_of_int (- 7555786372591432) * pow2 (- 76)"
    by (rule double_of_eq) (simp_all add: pow2_def)
  then show ?thesis by (simp add: pow2_def)
qed

lemma nnm_41: "double_of (41 / 10) = 2308094809027379 / 562949953421312"
proof -
  have "double_of (41 / 10) = real_of_int 4616189618054758 * pow2 (- 50)"
    by (rule double_of_eq) (simp_all add: pow2_def)
  then show ?thesis by (simp add: pow2_def)
qed

lemma nz_prod: "fmul (2308094809027379 / 562949953421312) (15 / 4) = 8655355533852671 / 562949953421312"
proof -
  have "double_of ((2308094809027379 / 562949953421312) * (15 / 4)) = real_of_int 8655355533852671 * pow2 (- 49)"
    by (rule double_of_eq) (simp_all add: pow2_def)
  then show ?thesis by (simp add: fmul_def pow2_def)
qed

lemma nz_div: "fdiv (8655355533852671 / 562949953421312) 100 = 5539427541665709 / 36028797018963968"
proof -
  have "double_of ((8655355533852671 / 562949953421312) / 100) = real_of_int 5539427541665709 * pow2 (- 55)"
    by (rule double_of_eq) (simp_all add: pow2_def)
  then show ?thesis by (simp add: fdiv_def pow2_def)
qed

lemma nz_rev: "fmul (5539427541665709 / 36028797018963968) 1000000 = 5282809774079999 / 34359738368"
proof -
  have "double_of ((5539427541665709 / 36028797018963968) * 1000000) = real_of_int 5282809774079999 * pow2 (- 35)"
    by (rule double_of_eq) (simp_all add: pow2_def)
  then show ?thesis by (simp add: fmul_def pow2_def)
qed

lemma nz_base: "double_of (41000) = 41000"
proof -
  have "double_of (41000) = real_of_int 5634997092352000 * pow2 (- 37)"
    by (rule double_of_eq) (simp_all add: pow2_def)
  then show ?thesis by (simp add: pow2_def)
qed

lemma nz_cost_1: "fmul 41000 (5 / 4) = 51250"
proof -
  have "double_of (41000 * (5 / 4)) = real_of_int 7043746365440000 * pow2 (- 37)"
    by (rule double_of_eq) (simp_all add: pow2_def)
  then show ?thesis by (simp add: fmul_def pow2_def)
qed

lemma nz_cost: "fmul 51250 3 = 153750"
proof -
  have "double_of (51250 * 3) = real_of_int 5282809774080000 * pow2 (- 35)"
    by (rule double_of_eq) (simp_all add: pow2_def)
  then show ?thesis by (simp add: fmul_def pow2_def)
qed

lemma nz_total_1: "fadd (5282809774079999 / 34359738368) 0 = 5282809774079999 / 34359738368"
proof -
  have "double_of (5282809774079999 / 34359738368 + 0) = real_of_int 5282809774079999 * pow2 (- 35)"
    by (rule double_of_eq) (simp_all add: pow2_def)
  then show ?thesis by (simp add: fadd_def pow2_def)
qed

lemma nz_total: "fadd (5282809774079999 / 34359738368) 0 = 5282809774079999 / 34359738368"
proof -
  have "double_of (5282809774079999 / 34359738368 + 0) = real_of_int 5282809774079999 * pow2 (- 35)"
    by (rule double_of_eq) (simp_all add: pow2_def)
  then show ?thesis by (simp add: fadd_def pow2_def)
qed

lemma nz_profit: "fsub (5282809774079999 / 34359738368) 153750 = - (1 / 34359738368)"
proof -
  have "double_of (5282809774079999 / 34359738368 - 153750) = real_of_int (- 4503599627370496) * pow2 (- 87)"
    by (rule double_of_eq) (simp_all add: pow2_def)
  then show ?thesis by (simp add: fsub_def pow2_def)
qed

lemma nz_profit_fix: "double_of (- (1 / 34359738368)) = - (1 / 34359738368)"
proof -
  have "double_of (- (1 / 34359738368)) = real_of_int (- 4503599627370496) * pow2 (- 87)"
    by (rule double_of_eq) (simp_all add: pow2_def)
  then show ?thesis by (simp add: pow2_def)
qed

lemma double_07: "double_of (7 / 10) = 3152519739159347 / 4503599627370496"
proof -
  have "double_of (7 / 10) = real_of_int 6305039478318694 * pow2 (- 53)"
    by (rule double_of_eq) (simp_all add: pow2_def)
  then show ?thesis by (simp add: pow2_def)
qed

lemma double_09: "double_of (9 / 10) = 8106479329266893 / 9007199254740992"
proof -
  have "double_of (9 / 10) = real_of_int 8106479329266893 * pow2 (- 53)"
    by (rule double_of_eq) (simp_all add: pow2_def)
  then show ?thesis by (simp add: pow2_def)
qed

lemma low_roa_1: "fadd (3152519739159347 / 4503599627370496) (3602879701896397 / 4503599627370496) = 3 / 2"
proof -
  have "double_of (3152519739159347 / 4503599627370496 + 3602879701896397 / 4503599627370496) = real_of_int 6755399441055744 * pow2 (- 52)"
    by (rule double_of_eq) (simp_all add: pow2_def)
  then show ?thesis by (simp add: fadd_def pow2_def)
qed

lemma low_roa_2: "fadd (3 / 2) (8106479329266893 / 9007199254740992) = 5404319552844595 / 2251799813685248"
proof -
  have "double_of (3 / 2 + 8106479329266893 / 9007199254740992) = real_of_int 5404319552844595 * pow2 (- 51)"
    by (rule double_of_eq) (simp_all add: pow2_def)
  then show ?thesis by (simp add: fadd_def pow2_def)
qed

lemma low_roa_mean: "fdiv (5404319552844595 / 2251799813685248) 3 = 7205759403792793 / 9007199254740992"
proof -
  have "double_of ((5404319552844595 / 2251799813685248) / 3) = real_of_int 7205759403792793 * pow2 (- 53)"
    by (rule double_of_eq) (simp_all add: pow2_def)
  then show ?thesis by (simp add: fdiv_def pow2_def)
qed

lemma shortfall_199: "fsub 200 199 = 1"
proof -
  have "double_of (200 - 199) = real_of_int 4503599627370496 * pow2 (- 52)"
    by (rule double_of_eq) (simp_all add: pow2_def)
  then show ?thesis by (simp add: fsub_def pow2_def)
qed

subsection \<open>Scoring: what each criterion adds\<close>

lemmas tally_simps = bump_def pos_def neg_def flag_def

text \<open>The tolerance is the double 0.1, a little above one tenth.\<close>

lemma tol_eq: "tol = 3602879701896397 / 36028797018963968"
  unfolding tol_def tolerance_pct_def using tol_value by simp

lemma score_experience_score:
  "score (score_experience inp t) =
     score t + (if 7 \<le> years_experience inp then 2 else if 6 \<le> years_experience inp then 1 else 0)"
  by (simp add: score_experience_def tally_simps)

lemma score_aum_score:
  "score (score_aum inp t) = score t + (if 200 \<le> current_assets inp then 2 else 0)"
  by (simp add: score_aum_def aum_min_def tally_simps)

lemma score_comp_score:
  "score (score_comp inp t) =
     score t + (if 200000 < base_salary inp \<and> 100000 < last_bonus inp then 2
                else if base_salary inp \<le> 150000 \<and> last_bonus inp \<le> 50000 then - 1 else 0)"
  by (simp add: score_comp_def tally_simps)

lemma score_roa_score:
  "score (score_roa inp t) =
     score t + (if 1 \<le> avg_roa inp then 2 else if double_of (8 / 10) \<le> avg_roa inp then 1 else 0)"
  by (simp add: score_roa_def tally_simps)

lemma score_clients_score:
  "score (score_clients inp t) =
     score t + (if current_number_clients inp = 0 \<or> 80 < current_number_clients inp then 0 else 1)"
  by (simp add: score_clients_def tally_simps)

lemma score_prospects_score:
  "score (score_prospects col_sum inp ps t) =
     score t + (if nnm_y1 inp = 0 \<and> best_sum col_sum ps = 0 then 0
                else if \<bar>fsub (best_sum col_sum ps) (nnm_y1 inp)\<bar>
                          \<le> fmul tol (max (nnm_y1 inp) (double_of (1 / 10 ^ 9))) then 1
                else 0)"
  by (simp add: score_prospects_def tally_simps)

lemmas criterion_scores = score_experience_score score_aum_score score_comp_score
  score_roa_score score_clients_score score_prospects_score

lemma experience_delta:
  "score t \<le> score (score_experience inp t) \<and> score (score_experience inp t) \<le> score t + 2"
  by (simp add: score_experience_score)

lemma aum_delta:
  "score t \<le> score (score_aum inp t) \<and> score (score_aum inp t) \<le> score t + 2"
  by (simp add: score_aum_score)

lemma comp_delta:
  "score t - 1 \<le> score (score_comp inp t) \<and> score (score_comp inp t) \<le> score t + 2"
  by (simp add: score_comp_score)

lemma roa_delta:
  "score t \<le> score (score_roa inp t) \<and> score (score_roa inp t) \<le> score t + 2"
  by (simp add: score_roa_score)

lemma clients_delta:
  "score t \<le> score (score_clients inp t) \<and> score (score_clients inp t) \<le> score t + 1"
  by (simp add: score_clients_score)

lemma prospects_delta:
  "score t \<le> score (score_prospects col_sum inp ps t) \<and>
   score (score_prospects col_sum inp ps t) \<le> score t + 1"
  by (simp add: score_prospects_score)

text \<open>The score of the whole block is the sum of the six contributions.\<close>

lemma scoring_block_score:
  "score (scoring_block col_sum inp ps) =
     (if 7 \<le> years_experience inp then 2 else if 6 \<le> years_experience inp then 1 else 0)
   + (if 200 \<le> current_assets inp then 2 else 0)
   + (if 200000 < base_salary inp \<and> 100000 < last_bonus inp then 2
      else if base_salary inp \<le> 150000 \<and> last_bonus inp \<le> 50000 then - 1 else 0)
   + (if 1 \<le> avg_roa inp then 2 else if double_of (8 / 10) \<le> avg_roa inp then 1 else 0)
   + (if current_number_clients inp = 0 \<or> 80 < current_number_clients inp then 0 else 1)
   + (if nnm_y1 inp = 0 \<and> best_sum col_sum ps = 0 then 0
      else if \<bar>fsub (best_sum col_sum ps) (nnm_y1 inp)\<bar>
                \<le> fmul tol (max (nnm_y1 inp) (double_of (1 / 10 ^ 9))) then 1
      else 0)"
  unfolding scoring_block_def criterion_scores by (simp only: tally0_def tally.simps add_0)

subsection \<open>Scoring: the example values in doubles\<close>

text \<open>The mean of the ROA 1.2, 1.1 and 1.0 is 1.0999999999999999 in doubles.\<close>

lemma avg_roa_example:
  assumes "roa_y1 inp = double_of (12 / 10)" and "roa_y2 inp = double_of (11 / 10)"
    and "roa_y3 inp = 1"
  shows "avg_roa inp = 4953959590107545 / 4503599627370496"
  unfolding avg_roa_def assms double_12 double_11
  unfolding roa_sum_1
  unfolding roa_sum_2
  unfolding roa_mean
  by (rule refl)

lemma avg_roa_half:
  assumes "roa_y1 inp = 1 / 2" and "roa_y2 inp = 1 / 2" and "roa_y3 inp = 1 / 2"
  shows "avg_roa inp = 1 / 2"
  unfolding avg_roa_def assms
  unfolding half_sum_1
  unfolding half_sum_2
  unfolding half_mean
  by (rule refl)

text \<open>The floor 1e-9 is below every NNM of at least one.\<close>

lemma eps_small: "1 \<le> n \<Longrightarrow> max n (double_of (1 / 10 ^ 9)) = n"
  unfolding double_eps by simp

lemma best_sum_example: "best_sum seq_sum example_prospects = 21 / 2"
proof -
  have "seq_sum [6, 9 / 2] = fadd (fadd 0 6) (9 / 2)" by (simp add: seq_sum_def)
  also have "\<dots> = 21 / 2" unfolding best_1 unfolding best_2 by (rule refl)
  finally show ?thesis by (simp add: best_sum_def example_prospects_def)
qed


text \<open>
  A best-case sum of 10.5 against an NNM of 10: the deviation 0.5 is within the limit
  \<open>0.1 * 10\<close>, which rounds to 1.
\<close>

lemma prospects_example_within:
  "\<bar>fsub (21 / 2) 10\<bar> \<le> fmul tol (max 10 (double_of (1 / 10 ^ 9)))"
proof -
  have "max (10::real) (double_of (1 / 10 ^ 9)) = 10" by (rule eps_small) simp
  then show ?thesis unfolding tol_eq dev_example by (simp add: limit_example)
qed


lemma example_score: "score (scoring_block seq_sum example_inputs example_prospects) = 10"
proof -
  have a: "avg_roa example_inputs = 4953959590107545 / 4503599627370496"
    by (rule avg_roa_example) (simp_all add: example_inputs_def)
  have n: "nnm_y1 example_inputs = 10" by (simp add: example_inputs_def)
  show ?thesis
    unfolding scoring_block_score a n best_sum_example
    using prospects_example_within by (simp add: example_inputs_def)
qed

text \<open>
  The mean of the ROA 0.7, 0.8 and 0.9 is 0.8 on paper and 0.7999999999999999 in doubles,
  below the double 0.8: no point.
\<close>

lemma score_roa_edge:
  "score_roa (example_inputs\<lparr>roa_y1 := double_of (7 / 10), roa_y2 := double_of (8 / 10),
      roa_y3 := double_of (9 / 10)\<rparr>) tally0 =
     tally0\<lparr>reasons_neg := [ROA_low (7205759403792793 / 9007199254740992)]\<rparr>"
proof -
  have "avg_roa (example_inputs\<lparr>roa_y1 := double_of (7 / 10), roa_y2 := double_of (8 / 10),
      roa_y3 := double_of (9 / 10)\<rparr>) =
      fdiv (fadd (fadd (double_of (7 / 10)) (double_of (8 / 10))) (double_of (9 / 10))) 3"
    by (simp add: avg_roa_def)
  also have "\<dots> = 7205759403792793 / 9007199254740992"
    unfolding double_07 double_08 double_09
    unfolding low_roa_1
    unfolding low_roa_2
    unfolding low_roa_mean
    by (rule refl)
  finally show ?thesis
    unfolding score_roa_def double_08 by (simp add: tally_simps tally0_def)
qed

subsection \<open>Verdict and range of the score\<close>

text \<open>
  Claim C8. The verdict is computed from the total score alone: a score of at least 7
  gives the Strong text, a score from 4 to 6 the Medium text and a score below 4 the Weak
  text; the three texts are different.
\<close>

theorem verdict_tiers:
  "(7 \<le> s \<longrightarrow> verdict s = strong_candidate) \<and>
   (4 \<le> s \<and> s \<le> 6 \<longrightarrow> verdict s = medium_potential) \<and>
   (s < 4 \<longrightarrow> verdict s = weak_candidate) \<and>
   strong_candidate \<noteq> medium_potential \<and> medium_potential \<noteq> weak_candidate \<and>
   strong_candidate \<noteq> weak_candidate"
  by (simp add: verdict_def strong_candidate_def medium_potential_def weak_candidate_def)

text \<open>The tiers at the boundary scores 7, 6, 4 and 3.\<close>

theorem verdict_tiers_witness:
  "verdict 7 = strong_candidate \<and> verdict 6 = medium_potential \<and>
   verdict 4 = medium_potential \<and> verdict 3 = weak_candidate"
  using verdict_tiers [of 7] verdict_tiers [of 6] verdict_tiers [of 4] verdict_tiers [of 3]
  by simp

text \<open>
  Claim C10. For every record and prospect list the total score lies between -1 and 10.
  Experience adds 0, 1 or 2, the AUM criterion 0 or 2, compensation -1, 0 or 2, the average
  ROA 0, 1 or 2, the client load 0 or 1 and the prospects check 0 or 1; the score goes
  down only in the low-compensation branch.
\<close>

theorem score_range:
  "- 1 \<le> score (scoring_block col_sum inp ps) \<and> score (scoring_block col_sum inp ps) \<le> 10 \<and>
   score (score_experience inp t) - score t \<in> {0, 1, 2} \<and>
   score (score_aum inp t) - score t \<in> {0, 2} \<and>
   score (score_comp inp t) - score t \<in> {- 1, 0, 2} \<and>
   score (score_roa inp t) - score t \<in> {0, 1, 2} \<and>
   score (score_clients inp t) - score t \<in> {0, 1} \<and>
   score (score_prospects col_sum inp ps t) - score t \<in> {0, 1} \<and>
   (score (score_comp inp t) < score t) =
     (base_salary inp \<le> 150000 \<and> last_bonus inp \<le> 50000)"
proof -
  define t1 where "t1 = score_experience inp tally0"
  define t2 where "t2 = score_aum inp t1"
  define t3 where "t3 = score_comp inp t2"
  define t4 where "t4 = score_roa inp t3"
  define t5 where "t5 = score_clients inp t4"
  have b: "scoring_block col_sum inp ps = score_prospects col_sum inp ps t5"
    by (simp add: scoring_block_def t1_def t2_def t3_def t4_def t5_def)
  have z: "score tally0 = 0" by (simp add: tally0_def)
  have range: "- 1 \<le> score (scoring_block col_sum inp ps) \<and>
      score (scoring_block col_sum inp ps) \<le> 10"
    using experience_delta[of tally0 inp] aum_delta[of t1 inp] comp_delta[of t2 inp]
      roa_delta[of t3 inp] clients_delta[of t4 inp] prospects_delta[of t5 col_sum inp ps]
    unfolding b t5_def[symmetric] t4_def[symmetric] t3_def[symmetric]
      t2_def[symmetric] t1_def[symmetric] z
    by linarith
  have e: "score (score_experience inp t) - score t \<in> {0, 1, 2}"
    by (simp add: score_experience_score)
  have a: "score (score_aum inp t) - score t \<in> {0, 2}"
    by (simp add: score_aum_score)
  have c: "score (score_comp inp t) - score t \<in> {- 1, 0, 2}"
    by (simp add: score_comp_score)
  have r: "score (score_roa inp t) - score t \<in> {0, 1, 2}"
    by (simp add: score_roa_score)
  have l: "score (score_clients inp t) - score t \<in> {0, 1}"
    by (simp add: score_clients_score)
  have p: "score (score_prospects col_sum inp ps t) - score t \<in> {0, 1}"
    by (simp add: score_prospects_score)
  have d: "(score (score_comp inp t) < score t) =
     (base_salary inp \<le> 150000 \<and> last_bonus inp \<le> 50000)"
    by (simp add: score_comp_score)
  from range e a c r l p d show ?thesis by blast
qed

text \<open>Both bounds are attained.\<close>

lemma score_range_attained:
  "score (scoring_block seq_sum example_inputs example_prospects) = 10 \<and>
   score (scoring_block seq_sum
     (example_inputs\<lparr>years_experience := 2, current_assets := 50, base_salary := 100000,
        last_bonus := 20000, roa_y1 := 1 / 2, roa_y2 := 1 / 2, roa_y3 := 1 / 2,
        current_number_clients := 0, nnm_y1 := 0\<rparr>) []) = - 1"
proof -
  have a: "avg_roa (example_inputs\<lparr>years_experience := 2, current_assets := 50,
        base_salary := 100000, last_bonus := 20000, roa_y1 := 1 / 2, roa_y2 := 1 / 2,
        roa_y3 := 1 / 2, current_number_clients := 0, nnm_y1 := 0\<rparr>) = 1 / 2"
    by (rule avg_roa_half) simp_all
  have "score (scoring_block seq_sum
     (example_inputs\<lparr>years_experience := 2, current_assets := 50, base_salary := 100000,
        last_bonus := 20000, roa_y1 := 1 / 2, roa_y2 := 1 / 2, roa_y3 := 1 / 2,
        current_number_clients := 0, nnm_y1 := 0\<rparr>) []) = - 1"
    unfolding scoring_block_score a double_08 by (simp add: best_sum_def)
  then show ?thesis using example_score by simp
qed

subsection \<open>The prospects criterion\<close>



subsection \<open>The AUM criterion\<close>

text \<open>
  A record of the "CH Onshore" market with an AUM of 220, below 250, receives the two
  points of the criterion.
\<close>

theorem aum_ch_onshore_counterexample:
  "current_market (example_inputs\<lparr>current_assets := 220\<rparr>) = ''CH Onshore'' \<and>
   current_assets (example_inputs\<lparr>current_assets := 220\<rparr>) < 250 \<and>
   score_aum (example_inputs\<lparr>current_assets := 220\<rparr>) tally0 =
     tally0\<lparr>score := 2, reasons_pos := [AUM_ge 200]\<rparr>"
  by (simp add: score_aum_def aum_min_def example_inputs_def tally0_def tally_simps)

text \<open>
  Claim C2, amended. The threshold is 200 in every market, "CH Onshore" included. An AUM
  of at least 200 adds two points; in the "CH Onshore" market an AUM of at least 250 only
  changes the positive reason to the CH 250M text. An AUM below 200 adds no point and
  records the shortfall 200 - AUM, a float subtraction, floored at 0, as a negative reason;
  the floor never bites.
\<close>

theorem aum_criterion:
  "aum_min (current_market inp) = 200 \<and>
   (200 \<le> current_assets inp \<longrightarrow>
      score_aum inp t =
        t\<lparr>score := score t + 2,
          reasons_pos := reasons_pos t @
            [if current_market inp = ''CH Onshore'' \<and> 250 \<le> current_assets inp
             then AUM_meets_CH_250M else AUM_ge 200]\<rparr>) \<and>
   (current_assets inp < 200 \<longrightarrow>
      score_aum inp t =
        t\<lparr>reasons_neg := reasons_neg t @
             [AUM_shortfall (max 0 (fsub 200 (current_assets inp)))]\<rparr> \<and>
      max 0 (fsub 200 (current_assets inp)) = fsub 200 (current_assets inp))"
proof -
  have "0 \<le> fsub 200 (current_assets inp)" if "current_assets inp < 200"
    unfolding fsub_def using that by (intro double_of_nonneg) simp
  then show ?thesis by (simp add: score_aum_def aum_min_def tally_simps)
qed

text \<open>The criterion at the threshold, above the CH tier and one unit below the threshold.\<close>

theorem aum_criterion_witness:
  "score_aum (example_inputs\<lparr>current_assets := 200\<rparr>) tally0 =
     tally0\<lparr>score := 2, reasons_pos := [AUM_ge 200]\<rparr> \<and>
   score_aum example_inputs tally0 = tally0\<lparr>score := 2, reasons_pos := [AUM_meets_CH_250M]\<rparr> \<and>
   score_aum (example_inputs\<lparr>current_assets := 199\<rparr>) tally0 =
     tally0\<lparr>reasons_neg := [AUM_shortfall 1]\<rparr>"
  using aum_criterion [of "example_inputs\<lparr>current_assets := 200\<rparr>" tally0]
    aum_criterion [of example_inputs tally0]
    aum_criterion [of "example_inputs\<lparr>current_assets := 199\<rparr>" tally0]
  by (simp add: example_inputs_def tally0_def shortfall_199)

subsection \<open>Signature: what it depends on\<close>

lemma payload_eq_iff:
  "payload pf d = payload pf d' \<longleftrightarrow>
     (\<forall>k \<in> set signature_fields.
        canonicalize_number pf (dict_get d k (Str '''')) =
        canonicalize_number pf (dict_get d' k (Str '''')))"
  by (auto simp: payload_def)

lemma sorted_payload_eq_iff:
  "sort_key fst (payload pf d) = sort_key fst (payload pf d') \<longleftrightarrow> payload pf d = payload pf d'"
proof
  assume h: "sort_key fst (payload pf d) = sort_key fst (payload pf d')"
  have "set (payload pf d) = set (payload pf d')"
    using arg_cong[OF h, of set] by simp
  then have "\<And>k. k \<in> set signature_fields \<Longrightarrow>
      canonicalize_number pf (dict_get d k (Str '''')) =
      canonicalize_number pf (dict_get d' k (Str ''''))"
    by (auto simp: payload_def image_iff set_eq_iff)
  then show "payload pf d = payload pf d'" by (simp add: payload_eq_iff)
qed simp

lemma make_signature_eq_iff:
  "make_signature pf d = make_signature pf d' \<longleftrightarrow>
     (\<forall>k \<in> set signature_fields.
        canonicalize_number pf (dict_get d k (Str '''')) =
        canonicalize_number pf (dict_get d' k (Str '''')))"
  by (simp add: make_signature_def sorted_payload_eq_iff payload_eq_iff)

lemma make_signature_cong:
  "(\<And>k. k \<in> set signature_fields \<Longrightarrow> map_of d k = map_of d' k)
     \<Longrightarrow> make_signature pf d = make_signature pf d'"
  by (simp add: make_signature_eq_iff dict_get_def)

lemma map_of_permuted:
  assumes "distinct (map fst d)" and "mset d = mset d'"
  shows "map_of d = map_of d'"
proof -
  have "mset (map fst d) = mset (map fst d')" using assms(2) by (metis mset_map)
  then have "distinct (map fst d')" using assms(1) by (metis mset_eq_imp_distinct_iff)
  moreover have "set d = set d'" using assms(2) by (metis mset_eq_setD)
  ultimately show ?thesis using assms(1) by (simp add: map_of_inject_set)
qed


subsection \<open>Rounding to six decimals\<close>

lemma fmt6_near: "\<bar>fmt6 v - v\<bar> \<le> 5 / 10 ^ 7"
proof -
  have "\<bar>real_of_int (round_half_even (v * 1000000)) - v * 1000000\<bar> \<le> 1 / 2"
    by (rule round_half_even_near)
  then show ?thesis unfolding fmt6_def by (simp add: field_simps abs_le_iff)
qed

lemma fmt6_unique:
  assumes "\<bar>x - real_of_int m / 10 ^ 6\<bar> < 5 / 10 ^ 7"
  shows "fmt6 x = real_of_int m / 10 ^ 6"
proof -
  have "\<bar>x * 1000000 - real_of_int m\<bar> < 1 / 2"
    using assms by (simp add: field_simps abs_less_iff)
  then show ?thesis unfolding fmt6_def by (simp add: round_half_even_unique)
qed

subsection \<open>Signature: excluded fields, order and rounding\<close>

lemma signature_fields_excluded:
  "''Score'' \<notin> set signature_fields \<and> ''Timestamp'' \<notin> set signature_fields \<and>
   ''AI Evaluation Notes'' \<notin> set signature_fields"
  by (simp add: signature_fields_def)

lemma canonicalize_Num:
  "canonicalize_number pf (Num v) = reread6 (double_of v < 0) (double_of v)"
  by (simp add: canonicalize_number_def)

text \<open>Two floats with the same six-decimal text are read back as the same float.\<close>

lemma reread6_cong:
  assumes "fmt6 x = fmt6 y" and "fmt6 x = 0 \<Longrightarrow> a = b"
  shows "reread6 a x = reread6 b y"
  using assms by (auto simp: reread6_def)

lemma build_data_dict_lookup:
  "k \<in> set signature_fields \<Longrightarrow>
     map_of (build_data_dict now inp sc vd) k = map_of (build_data_dict now' inp sc' vd') k"
  by (auto simp: signature_fields_def build_data_dict_def)

text \<open>
  The dictionaries built from the same inputs have the same signature, whatever the
  timestamp, the score and the verdict text.
\<close>

lemma build_data_dict_signature:
  "make_signature pf (build_data_dict now inp sc vd) =
   make_signature pf (build_data_dict now' inp sc' vd')"
  by (rule make_signature_cong) (rule build_data_dict_lookup)

text \<open>
  Claim C9. Two records that agree on every field but "Score" (and "Timestamp" and
  "AI Evaluation Notes") have the same signature: the field list of the signature does
  not contain "Score".
\<close>

theorem signature_ignores_score:
  assumes "\<And>k. k \<notin> {''Score'', ''Timestamp'', ''AI Evaluation Notes''} \<Longrightarrow> map_of d k = map_of d' k"
  shows "make_signature pf d = make_signature pf d' \<and> ''Score'' \<notin> set signature_fields"
proof -
  have "map_of d k = map_of d' k" if "k \<in> set signature_fields" for k
  proof -
    have "k \<notin> {''Score'', ''Timestamp'', ''AI Evaluation Notes''}"
      using that signature_fields_excluded by auto
    then show ?thesis by (rule assms)
  qed
  then have "make_signature pf d = make_signature pf d'" by (rule make_signature_cong)
  then show ?thesis using signature_fields_excluded by simp
qed

text \<open>The example record with score 10 and with score 3.\<close>

theorem signature_ignores_score_witness:
  "make_signature no_number (build_data_dict ''2025-01-01 10:00:00'' example_inputs 10 strong_candidate) =
   make_signature no_number (build_data_dict ''2025-01-01 10:00:00'' example_inputs 3 strong_candidate) \<and>
   ''Score'' \<notin> set signature_fields"
proof -
  have "\<And>k. k \<notin> {''Score'', ''Timestamp'', ''AI Evaluation Notes''} \<Longrightarrow>
      map_of (build_data_dict ''2025-01-01 10:00:00'' example_inputs 10 strong_candidate) k =
      map_of (build_data_dict ''2025-01-01 10:00:00'' example_inputs 3 strong_candidate) k"
    by (simp add: build_data_dict_def)
  then show ?thesis by (rule signature_ignores_score)
qed

text \<open>
  The floats 260.0000004 and 260.0000006 are written 260.000000 and 260.000001 and read
  back as 260.0 and as the double 260.000001.
\<close>

lemma canonical_aum_a:
  "canonicalize_number pf (Num (double_of (2600000004 / 10 ^ 7))) = Num 260"
proof -
  have f: "fmt6 (2286984189292517 / 8796093022208) = 260"
    using fmt6_unique[of "2286984189292517 / 8796093022208" 260000000] by simp
  show ?thesis
    unfolding canonicalize_Num aum_a
    unfolding aum_a_fix
    by (simp add: reread6_def f double_260)
qed

lemma canonical_aum_b:
  "canonicalize_number pf (Num (double_of (2600000006 / 10 ^ 7))) =
     Num (2286984194570173 / 8796093022208)"
proof -
  have f: "fmt6 (285873023881467 / 1099511627776) = 260000001 / 1000000"
    using fmt6_unique[of "285873023881467 / 1099511627776" 260000001] by simp
  show ?thesis
    unfolding canonicalize_Num aum_b
    unfolding aum_b_fix
    by (simp add: reread6_def f aum_b_reread)
qed

text \<open>
  Two records that differ only in the AUM, the floats 260.0000004 and 260.0000006, less
  than 1e-6 apart: the signatures differ, whatever \<open>py_float\<close> is.
\<close>

theorem signature_noise_counterexample:
  "\<bar>double_of (2600000004 / 10 ^ 7) - double_of (2600000006 / 10 ^ 7)\<bar> < 1 / 10 ^ 6 \<and>
   (\<forall>pf. make_signature pf
      (build_data_dict ''2025-01-01 10:00:00''
        (example_inputs\<lparr>current_assets := double_of (2600000004 / 10 ^ 7)\<rparr>)
        10 strong_candidate) \<noteq>
    make_signature pf
      (build_data_dict ''2025-01-01 10:00:00''
        (example_inputs\<lparr>current_assets := double_of (2600000006 / 10 ^ 7)\<rparr>)
        10 strong_candidate))"
proof -
  have close: "\<bar>double_of (2600000004 / 10 ^ 7) - double_of (2600000006 / 10 ^ 7)\<bar> < 1 / 10 ^ 6"
    unfolding aum_a aum_b by simp
  have k: "''Current AUM (M CHF)'' \<in> set signature_fields"
    by (simp add: signature_fields_def)
  have g: "dict_get (build_data_dict now inp sc vd) ''Current AUM (M CHF)'' (Str '''') =
      Num (current_assets inp)" for now inp sc vd
    by (simp add: build_data_dict_def dict_get_def)
  have "make_signature pf
      (build_data_dict ''2025-01-01 10:00:00''
        (example_inputs\<lparr>current_assets := double_of (2600000004 / 10 ^ 7)\<rparr>)
        10 strong_candidate) \<noteq>
    make_signature pf
      (build_data_dict ''2025-01-01 10:00:00''
        (example_inputs\<lparr>current_assets := double_of (2600000006 / 10 ^ 7)\<rparr>)
        10 strong_candidate)" for pf
  proof
    assume "make_signature pf
      (build_data_dict ''2025-01-01 10:00:00''
        (example_inputs\<lparr>current_assets := double_of (2600000004 / 10 ^ 7)\<rparr>)
        10 strong_candidate) =
    make_signature pf
      (build_data_dict ''2025-01-01 10:00:00''
        (example_inputs\<lparr>current_assets := double_of (2600000006 / 10 ^ 7)\<rparr>)
        10 strong_candidate)"
    then have "canonicalize_number pf (dict_get
        (build_data_dict ''2025-01-01 10:00:00''
          (example_inputs\<lparr>current_assets := double_of (2600000004 / 10 ^ 7)\<rparr>)
          10 strong_candidate) ''Current AUM (M CHF)'' (Str '''')) =
      canonicalize_number pf (dict_get
        (build_data_dict ''2025-01-01 10:00:00''
          (example_inputs\<lparr>current_assets := double_of (2600000006 / 10 ^ 7)\<rparr>)
          10 strong_candidate) ''Current AUM (M CHF)'' (Str ''''))"
      using k unfolding make_signature_eq_iff by blast
    then have "canonicalize_number pf (Num (double_of (2600000004 / 10 ^ 7))) =
        canonicalize_number pf (Num (double_of (2600000006 / 10 ^ 7)))"
      unfolding g by simp
    then show False unfolding canonical_aum_a canonical_aum_b by simp
  qed
  with close show ?thesis by simp
qed

text \<open>
  The sign of a zero is kept: the float -1e-7 is written -0.000000 and read back as -0.0,
  the float 1e-7 is written 0.000000 and read back as 0.0.
\<close>

lemma negative_zero_kept:
  "canonicalize_number pf (Num (- double_of (1 / 10 ^ 7))) = NegZero \<and>
   canonicalize_number pf (Num (double_of (1 / 10 ^ 7))) = Num 0"
proof -
  have f: "fmt6 (944473296573929 / 9444732965739290427392) = 0"
    using fmt6_unique[of "944473296573929 / 9444732965739290427392" 0] by simp
  have g: "fmt6 (- (944473296573929 / 9444732965739290427392)) = 0"
    using fmt6_unique[of "- (944473296573929 / 9444732965739290427392)" 0] by simp
  have a: "canonicalize_number pf (Num (- double_of (1 / 10 ^ 7))) = NegZero"
    unfolding tiny canonicalize_Num
    unfolding tiny_neg_fix
    by (simp add: reread6_def g)
  have b: "canonicalize_number pf (Num (double_of (1 / 10 ^ 7))) = Num 0"
    unfolding tiny canonicalize_Num
    unfolding tiny_fix
    by (simp add: reread6_def f)
  from a b show ?thesis by simp
qed

text \<open>
  The form reaches it: with a base salary of 41000, an NNM of 4.1 and an ROA of 3.75 the
  total profit is zero on paper and -2.9e-11 in doubles, written -0.000000.
\<close>

lemma revenue_zero: "revenue 0 r = 0"
  by (simp add: revenue_def fmul_def fdiv_def double_of_def)

lemma negative_zero_reachable:
  "total_profit_3y thin_margin_inputs = - (1 / 34359738368) \<and>
   canonicalize_number pf (Num (total_profit_3y thin_margin_inputs)) = NegZero"
proof -
  have r: "revenue (double_of (41 / 10)) (15 / 4) = 5282809774079999 / 34359738368"
    unfolding revenue_def nnm_41
    unfolding nz_prod
    unfolding nz_div
    unfolding nz_rev
    by (rule refl)
  have c: "fixed_cost_3y thin_margin_inputs = 153750"
    by (simp add: fixed_cost_3y_def thin_margin_inputs_def nz_base nz_cost_1 nz_cost)
  have i: "nnm_y1 thin_margin_inputs = double_of (41 / 10)" "roa_y1 thin_margin_inputs = 15 / 4"
    "nnm_y2 thin_margin_inputs = 0" "nnm_y3 thin_margin_inputs = 0"
    by (simp_all add: thin_margin_inputs_def)
  have p: "total_profit_3y thin_margin_inputs = - (1 / 34359738368)"
    unfolding total_profit_3y_def i c revenue_zero r
    unfolding nz_total_1
    unfolding nz_total_1
    unfolding nz_profit
    by (rule refl)
  have g: "fmt6 (- (1 / 34359738368)) = 0"
    using fmt6_unique[of "- (1 / 34359738368)" 0] by simp
  have "canonicalize_number pf (Num (- (1 / 34359738368))) = NegZero"
    unfolding canonicalize_Num
    unfolding nz_profit_fix
    by (simp add: reread6_def g)
  with p show ?thesis by simp
qed

text \<open>The three ways two records may differ without a change of the signature.\<close>

lemma signature_reordered: "distinct (map fst d) \<Longrightarrow> mset d = mset d' \<Longrightarrow> make_signature pf d = make_signature pf d'"
  by (rule make_signature_cong) (simp add: map_of_permuted[of d d'])

lemma signature_outside_fields:
  assumes "\<forall>k. k \<noteq> ''Timestamp'' \<and> k \<noteq> ''AI Evaluation Notes'' \<longrightarrow> map_of d k = map_of d' k"
  shows "make_signature pf d = make_signature pf d'"
proof (rule make_signature_cong)
  fix k assume "k \<in> set signature_fields"
  then have "k \<noteq> ''Timestamp'' \<and> k \<noteq> ''AI Evaluation Notes''"
    using signature_fields_excluded by auto
  then show "map_of d k = map_of d' k" using assms by blast
qed

lemma signature_same_rounding:
  assumes h: "\<forall>k. map_of d k = map_of d' k \<or>
          (\<exists>x y m. map_of d k = Some (Num x) \<and> map_of d' k = Some (Num y) \<and>
             \<bar>double_of x - real_of_int m / 10 ^ 6\<bar> < 5 / 10 ^ 7 \<and>
             \<bar>double_of y - real_of_int m / 10 ^ 6\<bar> < 5 / 10 ^ 7 \<and>
             (m = 0 \<longrightarrow> (double_of x < 0) = (double_of y < 0)))"
  shows "make_signature pf d = make_signature pf d'"
proof -
  have "canonicalize_number pf (dict_get d k (Str '''')) =
        canonicalize_number pf (dict_get d' k (Str ''''))" for k
  proof -
    from h have "map_of d k = map_of d' k \<or>
        (\<exists>x y m. map_of d k = Some (Num x) \<and> map_of d' k = Some (Num y) \<and>
           \<bar>double_of x - real_of_int m / 10 ^ 6\<bar> < 5 / 10 ^ 7 \<and>
           \<bar>double_of y - real_of_int m / 10 ^ 6\<bar> < 5 / 10 ^ 7 \<and>
           (m = 0 \<longrightarrow> (double_of x < 0) = (double_of y < 0)))"
      by blast
    then show ?thesis
    proof
      assume "map_of d k = map_of d' k"
      then show ?thesis by (simp add: dict_get_def)
    next
      assume "\<exists>x y m. map_of d k = Some (Num x) \<and> map_of d' k = Some (Num y) \<and>
           \<bar>double_of x - real_of_int m / 10 ^ 6\<bar> < 5 / 10 ^ 7 \<and>
           \<bar>double_of y - real_of_int m / 10 ^ 6\<bar> < 5 / 10 ^ 7 \<and>
           (m = 0 \<longrightarrow> (double_of x < 0) = (double_of y < 0))"
      then obtain x y m where xy: "map_of d k = Some (Num x)" "map_of d' k = Some (Num y)"
        "\<bar>double_of x - real_of_int m / 10 ^ 6\<bar> < 5 / 10 ^ 7"
        "\<bar>double_of y - real_of_int m / 10 ^ 6\<bar> < 5 / 10 ^ 7"
        "m = 0 \<longrightarrow> (double_of x < 0) = (double_of y < 0)"
        by blast
      have fx: "fmt6 (double_of x) = real_of_int m / 10 ^ 6" by (rule fmt6_unique[OF xy(3)])
      have fy: "fmt6 (double_of y) = real_of_int m / 10 ^ 6" by (rule fmt6_unique[OF xy(4)])
      have "reread6 (double_of x < 0) (double_of x) = reread6 (double_of y < 0) (double_of y)"
      proof (rule reread6_cong)
        show "fmt6 (double_of x) = fmt6 (double_of y)" using fx fy by simp
      next
        assume "fmt6 (double_of x) = 0"
        then have "m = 0" using fx by simp
        then show "(double_of x < 0) = (double_of y < 0)" using xy(5) by simp
      qed
      then show ?thesis using xy(1,2) by (simp add: dict_get_def canonicalize_Num)
    qed
  qed
  then show ?thesis by (simp add: make_signature_eq_iff)
qed

lemma fmt6_grid: "\<exists>n. fmt6 v = real_of_int n / 10 ^ 6"
  by (auto simp: fmt6_def)

lemma canonicalize_Num_cases:
  "canonicalize_number pf (Num v) =
     (if fmt6 (double_of v) = 0 then (if double_of v < 0 then NegZero else Num 0)
      else Num (double_of (fmt6 (double_of v))))"
  by (simp add: canonicalize_Num reread6_def)

text \<open>
  Claim C3, amended. The signature is the same when two records differ only in the order
  in which the fields are supplied, or only in fields outside the signature's list such
  as "Timestamp" and "AI Evaluation Notes", or only in numeric fields whose two floats
  lie within 5e-7 of the same multiple of 1e-6 and, when that multiple is 0, have the same
  sign (noise that crosses no rounding boundary and does not turn 0.0 into -0.0). A
  numeric field is canonicalised by writing its float with six decimals, rounded to
  nearest, and reading the text back: the text spells a multiple of 1e-6 at most 5e-7 away
  from the value, and a negative value written with zero digits only is read back as
  -0.0.
\<close>

theorem signature_invariance:
  "(distinct (map fst d) \<and> mset d = mset d' \<longrightarrow> make_signature pf d = make_signature pf d') \<and>
   ((\<forall>k. k \<noteq> ''Timestamp'' \<and> k \<noteq> ''AI Evaluation Notes'' \<longrightarrow> map_of d k = map_of d' k)
      \<longrightarrow> make_signature pf d = make_signature pf d') \<and>
   ((\<forall>k. map_of d k = map_of d' k \<or>
          (\<exists>x y m. map_of d k = Some (Num x) \<and> map_of d' k = Some (Num y) \<and>
             \<bar>double_of x - real_of_int m / 10 ^ 6\<bar> < 5 / 10 ^ 7 \<and>
             \<bar>double_of y - real_of_int m / 10 ^ 6\<bar> < 5 / 10 ^ 7 \<and>
             (m = 0 \<longrightarrow> (double_of x < 0) = (double_of y < 0))))
      \<longrightarrow> make_signature pf d = make_signature pf d') \<and>
   canonicalize_number pf (Num v) =
     (if fmt6 (double_of v) = 0 then (if double_of v < 0 then NegZero else Num 0)
      else Num (double_of (fmt6 (double_of v)))) \<and>
   (\<exists>n. fmt6 v = real_of_int n / 10 ^ 6) \<and> \<bar>fmt6 v - v\<bar> \<le> 5 / 10 ^ 7"
  apply (intro conjI impI)
       apply (erule conjE, erule (1) signature_reordered)
      apply (erule signature_outside_fields)
     apply (erule signature_same_rounding)
    apply (rule canonicalize_Num_cases)
   apply (rule fmt6_grid)
  apply (rule fmt6_near)
  done

text \<open>
  A reordered record, a record rebuilt five minutes later with another verdict text, a
  record with noise of 1e-7 in the AUM (the floats 260.0000001 and 260.0000002), and the
  rounding of 1/128.
\<close>

theorem signature_invariance_witness:
  "make_signature no_number [(''Base Salary'', Num 250000), (''Candidate Name'', Str ''Jane Smith'')] =
   make_signature no_number [(''Candidate Name'', Str ''Jane Smith''), (''Base Salary'', Num 250000)] \<and>
   make_signature no_number
     (build_data_dict ''2025-01-01 10:00:00'' example_inputs 10 strong_candidate) =
   make_signature no_number
     (build_data_dict ''2025-01-01 10:05:00'' example_inputs 10 medium_potential) \<and>
   make_signature no_number [(''Current AUM (M CHF)'', Num (double_of (2600000001 / 10 ^ 7)))] =
   make_signature no_number [(''Current AUM (M CHF)'', Num (double_of (2600000002 / 10 ^ 7)))] \<and>
   (\<exists>n. fmt6 (1 / 128) = real_of_int n / 10 ^ 6) \<and>
   \<bar>fmt6 (1 / 128) - 1 / 128\<bar> \<le> 5 / 10 ^ 7"
proof -
  have h1: "distinct (map fst [(''Base Salary'', Num 250000), (''Candidate Name'', Str ''Jane Smith'')]) \<and>
      mset [(''Base Salary'', Num 250000), (''Candidate Name'', Str ''Jane Smith'')] =
      mset [(''Candidate Name'', Str ''Jane Smith''), (''Base Salary'', Num 250000)]"
    by simp
  have h2: "\<forall>k. k \<noteq> ''Timestamp'' \<and> k \<noteq> ''AI Evaluation Notes'' \<longrightarrow>
      map_of (build_data_dict ''2025-01-01 10:00:00'' example_inputs 10 strong_candidate) k =
      map_of (build_data_dict ''2025-01-01 10:05:00'' example_inputs 10 medium_potential) k"
    by (simp add: build_data_dict_def)
  have n: "\<bar>double_of (double_of (2600000001 / 10 ^ 7)) - real_of_int 260000000 / 10 ^ 6\<bar> < 5 / 10 ^ 7 \<and>
      \<bar>double_of (double_of (2600000002 / 10 ^ 7)) - real_of_int 260000000 / 10 ^ 6\<bar> < 5 / 10 ^ 7"
    unfolding aum_c aum_d
    unfolding aum_c_fix aum_d_fix
    by simp
  have h3: "\<forall>k. map_of [(''Current AUM (M CHF)'', Num (double_of (2600000001 / 10 ^ 7)))] k =
                map_of [(''Current AUM (M CHF)'', Num (double_of (2600000002 / 10 ^ 7)))] k \<or>
          (\<exists>x y m. map_of [(''Current AUM (M CHF)'', Num (double_of (2600000001 / 10 ^ 7)))] k = Some (Num x) \<and>
             map_of [(''Current AUM (M CHF)'', Num (double_of (2600000002 / 10 ^ 7)))] k = Some (Num y) \<and>
             \<bar>double_of x - real_of_int m / 10 ^ 6\<bar> < 5 / 10 ^ 7 \<and>
             \<bar>double_of y - real_of_int m / 10 ^ 6\<bar> < 5 / 10 ^ 7 \<and>
             (m = 0 \<longrightarrow> (double_of x < 0) = (double_of y < 0)))"
  proof
    fix k :: string
    show "map_of [(''Current AUM (M CHF)'', Num (double_of (2600000001 / 10 ^ 7)))] k =
                map_of [(''Current AUM (M CHF)'', Num (double_of (2600000002 / 10 ^ 7)))] k \<or>
          (\<exists>x y m. map_of [(''Current AUM (M CHF)'', Num (double_of (2600000001 / 10 ^ 7)))] k = Some (Num x) \<and>
             map_of [(''Current AUM (M CHF)'', Num (double_of (2600000002 / 10 ^ 7)))] k = Some (Num y) \<and>
             \<bar>double_of x - real_of_int m / 10 ^ 6\<bar> < 5 / 10 ^ 7 \<and>
             \<bar>double_of y - real_of_int m / 10 ^ 6\<bar> < 5 / 10 ^ 7 \<and>
             (m = 0 \<longrightarrow> (double_of x < 0) = (double_of y < 0)))"
    proof (cases "k = ''Current AUM (M CHF)''")
      case True
      show ?thesis
        apply (rule disjI2)
        apply (rule exI[of _ "double_of (2600000001 / 10 ^ 7)"])
        apply (rule exI[of _ "double_of (2600000002 / 10 ^ 7)"])
        apply (rule exI[of _ 260000000])
        using n True apply simp
        done
    next
      case False
      then show ?thesis by simp
    qed
  qed
  note t = signature_invariance
  from t[of _ _ no_number "1 / 128", THEN conjunct1, THEN mp, OF h1]
    t[of _ _ no_number "1 / 128", THEN conjunct2, THEN conjunct1, THEN mp, OF h2]
    t[of _ _ no_number "1 / 128", THEN conjunct2, THEN conjunct2, THEN conjunct1, THEN mp, OF h3]
    t[of "[]" "[]" no_number "1 / 128", THEN conjunct2, THEN conjunct2, THEN conjunct2,
      THEN conjunct2]
  show ?thesis by blast
qed

subsection \<open>Saving: the four outcomes of one attempt\<close>

lemma save_success:
  assumes "worksheet s = Some ws" and "last_sig s \<noteq> Some (make_signature pf d)"
  shows "save_to_sheet_if_possible pf Api_ok d r s =
     (True, (if r \<noteq> [] then Success_saved_reason r else Success_saved),
      s\<lparr>worksheet := Some (ws\<lparr>appended_rows := appended_rows ws @ [header_row ws d]\<rparr>),
        last_sig := Some (make_signature pf d)\<rparr>)"
  using assms by (simp add: save_to_sheet_if_possible_def append_in_header_order_def Let_def)

lemma save_duplicate:
  assumes "worksheet s = Some ws" and "last_sig s = Some (make_signature pf d)"
  shows "save_to_sheet_if_possible pf out d r s = (False, Info_already_saved, s)"
  using assms by (simp add: save_to_sheet_if_possible_def Let_def)

lemma save_raises:
  assumes "worksheet s = Some ws" and "last_sig s \<noteq> Some (make_signature pf d)"
  shows "save_to_sheet_if_possible pf (Api_raises e) d r s = (False, Error_saving e, s)"
  using assms by (simp add: save_to_sheet_if_possible_def append_in_header_order_def Let_def)

lemma save_no_connection:
  assumes "worksheet s = None"
  shows "save_to_sheet_if_possible pf out d r s = (False, Warning_no_connection, s)"
  using assms by (simp add: save_to_sheet_if_possible_def)

lemma save_succeeds_iff:
  "fst (save_to_sheet_if_possible pf out d r s) \<longleftrightarrow>
     worksheet s \<noteq> None \<and> last_sig s \<noteq> Some (make_signature pf d) \<and> out = Api_ok"
  by (cases out; cases "worksheet s")
    (simp_all add: save_to_sheet_if_possible_def append_in_header_order_def Let_def)

lemma save_raises_keeps_state:
  "snd (snd (save_to_sheet_if_possible pf (Api_raises e) d r s)) = s"
  by (cases "worksheet s")
    (simp_all add: save_to_sheet_if_possible_def append_in_header_order_def Let_def)

text \<open>
  After an attempt that appended, an attempt with a record of the same signature is
  skipped and leaves the state as it is.
\<close>

lemma save_then_duplicate:
  assumes ok: "fst (save_to_sheet_if_possible pf out1 d r1 s)"
    and same: "make_signature pf d' = make_signature pf d"
  shows "save_to_sheet_if_possible pf out2 d' r2 (snd (snd (save_to_sheet_if_possible pf out1 d r1 s))) =
     (False, Info_already_saved, snd (snd (save_to_sheet_if_possible pf out1 d r1 s)))"
proof -
  from ok obtain ws where ws: "worksheet s = Some ws"
    and fresh: "last_sig s \<noteq> Some (make_signature pf d)" and o: "out1 = Api_ok"
    unfolding save_succeeds_iff by auto
  show ?thesis
    unfolding o save_success[OF ws fresh]
    by (rule save_duplicate[where ws = "ws\<lparr>appended_rows := appended_rows ws @ [header_row ws d]\<rparr>"])
      (simp_all add: same)
qed

subsection \<open>The email rule of the code against the spec's wording\<close>

lemma split_char_nonempty: "split_char c e \<noteq> []"
  by (cases e) (auto split: list.splits)

lemma split_char_last_subset: "set (last (split_char c e)) \<subseteq> set e"
proof (induction e)
  case Nil
  show ?case by simp
next
  case (Cons x xs)
  show ?case
  proof (cases "x = c")
    case True
    then show ?thesis using Cons split_char_nonempty[of c xs] by auto
  next
    case False
    obtain w ws where s: "split_char c xs = w # ws"
      using split_char_nonempty[of c xs] by (cases "split_char c xs") auto
    show ?thesis using Cons False s by (cases ws) auto
  qed
qed

lemma split_char_single: "split_char c e = [w] \<Longrightarrow> c \<notin> set e"
proof (induction e arbitrary: w)
  case Nil
  show ?case by simp
next
  case (Cons x xs)
  show ?case
  proof (cases "x = c")
    case True
    then show ?thesis using Cons.prems split_char_nonempty[of c xs] by simp
  next
    case False
    obtain v vs where s: "split_char c xs = v # vs"
      using split_char_nonempty[of c xs] by (cases "split_char c xs") auto
    with Cons.prems False have "vs = []" by simp
    with s Cons.IH have "c \<notin> set xs" by simp
    with False show ?thesis by simp
  qed
qed

lemma split_char_last_after:
  "c \<in> set e \<Longrightarrow> set (last (split_char c e)) \<subseteq> set (dropWhile (\<lambda>x. x \<noteq> c) e)"
proof (induction e)
  case Nil
  then show ?case by simp
next
  case (Cons x xs)
  show ?case
  proof (cases "x = c")
    case True
    then show ?thesis
      using split_char_last_subset[of c xs] split_char_nonempty[of c xs] by auto
  next
    case False
    with Cons.prems have in_xs: "c \<in> set xs" by simp
    obtain w ws where s: "split_char c xs = w # ws"
      using split_char_nonempty[of c xs] by (cases "split_char c xs") auto
    have "ws \<noteq> []" using split_char_single[of c xs w] s in_xs by auto
    then have "last (split_char c (x # xs)) = last (split_char c xs)"
      using False s by simp
    then show ?thesis using Cons.IH[OF in_xs] False by simp
  qed
qed

text \<open>
  The code looks for the dot after the last \<^verbatim>\<open>@\<close>, so it accepts no address the spec's
  wording rejects; it rejects some the wording accepts.
\<close>

lemma email_valid_plausible: "email_valid e \<Longrightarrow> email_plausible_spec e"
  unfolding email_valid_def email_plausible_spec_def
  using split_char_last_after[of "CHR ''@''" e] by auto

lemma email_valid_stricter:
  "email_plausible_spec ''a@b.c@d'' \<and> \<not> email_valid ''a@b.c@d'' \<and> email_valid ''jane.smith@bank.ch''"
  by (simp add: email_plausible_spec_def email_valid_def)

subsection \<open>Saving twice, a failed append, and refused inputs\<close>

lemma example_inputs_ok: "fst (inputs_ok_for_save example_inputs)"
  by (simp add: inputs_ok_for_save_def missing_fields_def example_inputs_def email_valid_def
      select_placeholder_def)

text \<open>
  Claim C4. For a record that passes the validation, on a connected sheet and not yet the
  last record saved, two manual saves in succession with the record unchanged append
  exactly one row: the first appends the row and stores the record's signature, the second
  finds the stored signature equal, appends nothing, changes nothing and shows the
  "already saved" information, whatever the spreadsheet client would have done.
\<close>

theorem save_twice_appends_once:
  assumes valid: "fst (inputs_ok_for_save inp)"
    and conn: "worksheet s = Some ws"
    and fresh: "last_sig s \<noteq> Some (make_signature pf d)"
  shows "\<exists>s1. manual_save pf True Api_ok inp d s = ([Success_saved_reason ''manual''], s1) \<and>
           worksheet s1 = Some (ws\<lparr>appended_rows := appended_rows ws @ [header_row ws d]\<rparr>) \<and>
           last_sig s1 = Some (make_signature pf d) \<and>
           autosaved_hash s1 = autosaved_hash s \<and>
           manual_save pf True out2 inp d s1 = ([Info_already_saved], s1)"
proof -
  define s1 where "s1 = s\<lparr>worksheet := Some (ws\<lparr>appended_rows := appended_rows ws @ [header_row ws d]\<rparr>),
        last_sig := Some (make_signature pf d)\<rparr>"
  have first: "manual_save pf True Api_ok inp d s = ([Success_saved_reason ''manual''], s1)"
    using valid by (simp add: manual_save_def save_success[OF conn fresh] s1_def)
  have w1: "worksheet s1 = Some (ws\<lparr>appended_rows := appended_rows ws @ [header_row ws d]\<rparr>)"
    and l1: "last_sig s1 = Some (make_signature pf d)"
    and a1: "autosaved_hash s1 = autosaved_hash s"
    by (simp_all add: s1_def)
  have second: "manual_save pf True out2 inp d s1 = ([Info_already_saved], s1)"
    using valid by (simp add: manual_save_def save_duplicate[OF w1 l1])
  from first w1 l1 a1 second show ?thesis by blast
qed

text \<open>The example record saved twice on the empty example sheet.\<close>

theorem save_twice_appends_once_witness:
  "\<exists>s1. manual_save no_number True Api_ok example_inputs
           (example_dict ''2025-01-01 10:00:00'' example_inputs) example_state =
           ([Success_saved_reason ''manual''], s1) \<and>
         worksheet s1 = Some (\<lparr>header_cells = HEADER_ORDER, appended_rows = []\<rparr>
           \<lparr>appended_rows := appended_rows \<lparr>header_cells = HEADER_ORDER, appended_rows = []\<rparr> @
              [header_row \<lparr>header_cells = HEADER_ORDER, appended_rows = []\<rparr>
                 (example_dict ''2025-01-01 10:00:00'' example_inputs)]\<rparr>) \<and>
         last_sig s1 = Some (make_signature no_number (example_dict ''2025-01-01 10:00:00'' example_inputs)) \<and>
         autosaved_hash s1 = autosaved_hash example_state \<and>
         manual_save no_number True (Api_raises ''quota'') example_inputs
           (example_dict ''2025-01-01 10:00:00'' example_inputs) s1 = ([Info_already_saved], s1)"
proof -
  have c: "worksheet example_state = Some \<lparr>header_cells = HEADER_ORDER, appended_rows = []\<rparr>"
    by (simp add: example_state_def)
  have f: "last_sig example_state \<noteq>
      Some (make_signature no_number (example_dict ''2025-01-01 10:00:00'' example_inputs))"
    by (simp add: example_state_def)
  show ?thesis by (rule save_twice_appends_once[OF example_inputs_ok c f])
qed

text \<open>
  Claim C5. When the append of a save attempt raises, the attempt returns False with the
  error shown and the whole state, the stored signature included, is as before; so a
  retry with the same record is not a duplicate: it reaches the append again, and when the
  append goes through the row is added and the signature stored.
\<close>

theorem failed_append_keeps_signature:
  assumes conn: "worksheet s = Some ws"
    and fresh: "last_sig s \<noteq> Some (make_signature pf d)"
  shows "save_to_sheet_if_possible pf (Api_raises e) d r s = (False, Error_saving e, s) \<and>
         save_to_sheet_if_possible pf Api_ok d r' s =
           (True, (if r' \<noteq> [] then Success_saved_reason r' else Success_saved),
            s\<lparr>worksheet := Some (ws\<lparr>appended_rows := appended_rows ws @ [header_row ws d]\<rparr>),
              last_sig := Some (make_signature pf d)\<rparr>)"
  using save_raises[OF conn fresh] save_success[OF conn fresh] by simp

text \<open>A quota error on the example record, then the retry.\<close>

theorem failed_append_keeps_signature_witness:
  "save_to_sheet_if_possible no_number (Api_raises ''quota'')
     (example_dict ''2025-01-01 10:00:00'' example_inputs) ''manual'' example_state =
     (False, Error_saving ''quota'', example_state) \<and>
   save_to_sheet_if_possible no_number Api_ok
     (example_dict ''2025-01-01 10:00:00'' example_inputs) ''manual'' example_state =
     (True, Success_saved_reason ''manual'',
      example_state\<lparr>worksheet := Some (\<lparr>header_cells = HEADER_ORDER, appended_rows = []\<rparr>
           \<lparr>appended_rows := appended_rows \<lparr>header_cells = HEADER_ORDER, appended_rows = []\<rparr> @
              [header_row \<lparr>header_cells = HEADER_ORDER, appended_rows = []\<rparr>
                 (example_dict ''2025-01-01 10:00:00'' example_inputs)]\<rparr>),
        last_sig := Some (make_signature no_number (example_dict ''2025-01-01 10:00:00'' example_inputs))\<rparr>)"
proof -
  have c: "worksheet example_state = Some \<lparr>header_cells = HEADER_ORDER, appended_rows = []\<rparr>"
    by (simp add: example_state_def)
  have f: "last_sig example_state \<noteq>
      Some (make_signature no_number (example_dict ''2025-01-01 10:00:00'' example_inputs))"
    by (simp add: example_state_def)
  show ?thesis
    using failed_append_keeps_signature[OF c f, of "''quota''" "''manual''" "''manual''"] by simp
qed

text \<open>
  With inputs that fail the validation no trigger reaches \<open>save_to_sheet_if_possible\<close>:
  the result mentions neither the record nor the stored signature.
\<close>

lemma save_section_refused:
  assumes "\<not> fst (inputs_ok_for_save inp)"
  shows "save_section pf mode download_clicked manual_clicked out_auto out_manual inp d s =
     ((if mode = ''on_pdf'' \<and> download_clicked
       then [Warning_not_saved (join_comma (missing_fields inp))] else []) @
      (if manual_clicked then [Error_required_fields (join_comma (missing_fields inp))] else []),
      s)"
  using assms
  by (simp add: save_section_def autosave_always_def autosave_on_pdf_def manual_save_def
      inputs_ok_for_save_def)

text \<open>
  Claim C6. When the email has no \<^verbatim>\<open>@\<close> with a dot after it, or the location is the
  placeholder, the validation fails and lists the fields at fault ("Candidate Email
  (valid)" exactly when the email rule fails, "Candidate Location" exactly when the
  location is the placeholder). One run of the save section then leaves the state
  unchanged, and its result depends neither on the record's dictionary nor on the stored
  signature nor on the spreadsheet client: no signature is computed or compared and no
  append is attempted. The PDF trigger and the manual trigger show the list of fields; the
  "always" trigger is skipped without a message.
\<close>

theorem invalid_inputs_refused:
  assumes "\<not> email_plausible_spec (candidate_email inp) \<or>
           candidate_location inp = select_placeholder"
  shows "inputs_ok_for_save inp = (False, join_comma (missing_fields inp)) \<and>
         missing_fields inp \<noteq> [] \<and>
         (''Candidate Email (valid)'' \<in> set (missing_fields inp)) =
           (\<not> email_valid (candidate_email inp)) \<and>
         (''Candidate Location'' \<in> set (missing_fields inp)) =
           (candidate_location inp = select_placeholder) \<and>
         set (missing_fields inp) \<subseteq> {''Candidate Email (valid)'', ''Candidate Location''} \<and>
         (email_plausible_spec (candidate_email inp) \<or> \<not> email_valid (candidate_email inp)) \<and>
         save_section pf mode download_clicked manual_clicked out_auto out_manual inp d s =
           ((if mode = ''on_pdf'' \<and> download_clicked
             then [Warning_not_saved (join_comma (missing_fields inp))] else []) @
            (if manual_clicked then [Error_required_fields (join_comma (missing_fields inp))]
             else []),
            s)"
proof -
  have inv: "\<not> email_valid (candidate_email inp) \<or> candidate_location inp = select_placeholder"
    using assms email_valid_plausible by blast
  then have m: "missing_fields inp \<noteq> []" by (auto simp: missing_fields_def)
  then have nok: "\<not> fst (inputs_ok_for_save inp)" by (simp add: inputs_ok_for_save_def)
  have a: "inputs_ok_for_save inp = (False, join_comma (missing_fields inp))"
    using m by (simp add: inputs_ok_for_save_def)
  have b: "(''Candidate Email (valid)'' \<in> set (missing_fields inp)) =
           (\<not> email_valid (candidate_email inp))"
    by (simp add: missing_fields_def)
  have c: "(''Candidate Location'' \<in> set (missing_fields inp)) =
           (candidate_location inp = select_placeholder)"
    by (simp add: missing_fields_def)
  have e: "set (missing_fields inp) \<subseteq> {''Candidate Email (valid)'', ''Candidate Location''}"
    by (auto simp: missing_fields_def)
  have f: "email_plausible_spec (candidate_email inp) \<or> \<not> email_valid (candidate_email inp)"
    using email_valid_plausible by blast
  from a m b c e f save_section_refused[OF nok] show ?thesis by simp
qed

text \<open>
  An empty email with the placeholder location (PDF download and manual save clicked), and
  an email without a dot after the \<^verbatim>\<open>@\<close> in the "always" mode.
\<close>

theorem invalid_inputs_refused_witness:
  "inputs_ok_for_save (example_inputs\<lparr>candidate_email := '''', candidate_location := select_placeholder\<rparr>) =
     (False, ''Candidate Email (valid), Candidate Location'') \<and>
   save_section no_number ''on_pdf'' True True Api_ok Api_ok
     (example_inputs\<lparr>candidate_email := '''', candidate_location := select_placeholder\<rparr>)
     (example_dict ''2025-01-01 10:00:00''
        (example_inputs\<lparr>candidate_email := '''', candidate_location := select_placeholder\<rparr>))
     example_state =
     ([Warning_not_saved ''Candidate Email (valid), Candidate Location'',
       Error_required_fields ''Candidate Email (valid), Candidate Location''], example_state) \<and>
   inputs_ok_for_save (example_inputs\<lparr>candidate_email := ''jane@bank''\<rparr>) =
     (False, ''Candidate Email (valid)'') \<and>
   save_section no_number ''always'' False False Api_ok Api_ok
     (example_inputs\<lparr>candidate_email := ''jane@bank''\<rparr>)
     (example_dict ''2025-01-01 10:00:00'' (example_inputs\<lparr>candidate_email := ''jane@bank''\<rparr>))
     example_state = ([], example_state)"
proof -
  have h1: "\<not> email_plausible_spec
        (candidate_email (example_inputs\<lparr>candidate_email := '''', candidate_location := select_placeholder\<rparr>)) \<or>
      candidate_location (example_inputs\<lparr>candidate_email := '''', candidate_location := select_placeholder\<rparr>) =
        select_placeholder"
    by simp
  have h2: "\<not> email_plausible_spec (candidate_email (example_inputs\<lparr>candidate_email := ''jane@bank''\<rparr>)) \<or>
      candidate_location (example_inputs\<lparr>candidate_email := ''jane@bank''\<rparr>) = select_placeholder"
    by (simp add: email_plausible_spec_def)
  have m1: "missing_fields (example_inputs\<lparr>candidate_email := '''', candidate_location := select_placeholder\<rparr>) =
      [''Candidate Email (valid)'', ''Candidate Location'']"
    by (simp add: missing_fields_def email_valid_def)
  have m2: "missing_fields (example_inputs\<lparr>candidate_email := ''jane@bank''\<rparr>) = [''Candidate Email (valid)'']"
    by (simp add: missing_fields_def email_valid_def example_inputs_def select_placeholder_def)
  from invalid_inputs_refused[OF h1, of no_number "''on_pdf''" True True Api_ok Api_ok
      "example_dict ''2025-01-01 10:00:00''
        (example_inputs\<lparr>candidate_email := '''', candidate_location := select_placeholder\<rparr>)" example_state]
    invalid_inputs_refused[OF h2, of no_number "''always''" False False Api_ok Api_ok
      "example_dict ''2025-01-01 10:00:00'' (example_inputs\<lparr>candidate_email := ''jane@bank''\<rparr>)" example_state]
  show ?thesis unfolding m1 m2 by simp
qed

subsection \<open>The end-to-end example\<close>

text \<open>The example record of the specification scores 10, not 9.\<close>

theorem end_to_end_score_counterexample:
  "years_experience example_inputs = 7 \<and> current_assets example_inputs = 260 \<and>
   current_market example_inputs = ''CH Onshore'' \<and> base_salary example_inputs = 250000 \<and>
   last_bonus example_inputs = 150000 \<and> roa_y1 example_inputs = double_of (12 / 10) \<and>
   roa_y2 example_inputs = double_of (11 / 10) \<and> roa_y3 example_inputs = 1 \<and>
   current_number_clients example_inputs = 40 \<and> nnm_y1 example_inputs = 10 \<and>
   best_sum seq_sum example_prospects = 105 / 10 \<and>
   score (scoring_block seq_sum example_inputs example_prospects) = 10 \<and>
   score (scoring_block seq_sum example_inputs example_prospects) \<noteq> 9"
  unfolding example_score best_sum_example by (simp add: example_inputs_def)

text \<open>
  Claim C1, amended. For 7 years of experience, an AUM of 260 in the "CH Onshore" market,
  a base salary of 250000, a last bonus of 150000, the floats 1.2, 1.1 and 1.0 as ROA
  percentages, 40 clients, a year-1 NNM of 10 and prospects whose best-case NNM sums to
  10.5, the total score is 10 (2+2+2+2+1+1) and the verdict is the Strong text; after a
  save of the record that succeeded, a second attempt with the record rebuilt from the
  same inputs (at the same or at a later time) is skipped as a duplicate and changes
  nothing.
\<close>

theorem end_to_end_example:
  assumes "years_experience inp = 7" and "current_assets inp = 260"
    and "current_market inp = ''CH Onshore''"
    and "base_salary inp = 250000" and "last_bonus inp = 150000"
    and "roa_y1 inp = double_of (12 / 10)" and "roa_y2 inp = double_of (11 / 10)"
    and "roa_y3 inp = 1"
    and "current_number_clients inp = 40" and "nnm_y1 inp = 10"
    and "best_sum col_sum ps = 105 / 10"
    and "fst (save_to_sheet_if_possible pf out1
           (build_data_dict now inp (score (scoring_block col_sum inp ps))
              (verdict (score (scoring_block col_sum inp ps)))) r1 s)"
  shows "score (scoring_block col_sum inp ps) = 10 \<and>
         verdict (score (scoring_block col_sum inp ps)) = strong_candidate \<and>
         save_to_sheet_if_possible pf out2
           (build_data_dict now2 inp (score (scoring_block col_sum inp ps))
              (verdict (score (scoring_block col_sum inp ps)))) r2
           (snd (snd (save_to_sheet_if_possible pf out1
              (build_data_dict now inp (score (scoring_block col_sum inp ps))
                 (verdict (score (scoring_block col_sum inp ps)))) r1 s))) =
         (False, Info_already_saved,
          snd (snd (save_to_sheet_if_possible pf out1
              (build_data_dict now inp (score (scoring_block col_sum inp ps))
                 (verdict (score (scoring_block col_sum inp ps)))) r1 s)))"
proof -
  have a: "avg_roa inp = 4953959590107545 / 4503599627370496"
    by (rule avg_roa_example) (rule assms)+
  have b: "best_sum col_sum ps = 21 / 2" using assms(11) by simp
  have sc: "score (scoring_block col_sum inp ps) = 10"
    unfolding scoring_block_score a b assms(10)
    using prospects_example_within assms(1-5,9) by simp
  have vd: "verdict (score (scoring_block col_sum inp ps)) = strong_candidate"
    unfolding sc by (simp add: verdict_def)
  show ?thesis
    using sc vd save_then_duplicate[OF assms(12) build_data_dict_signature] by simp
qed

text \<open>The example record, saved at the PDF download and then saved manually.\<close>

theorem end_to_end_example_witness:
  "score (scoring_block seq_sum example_inputs example_prospects) = 10 \<and>
   verdict (score (scoring_block seq_sum example_inputs example_prospects)) = strong_candidate \<and>
   save_to_sheet_if_possible no_number (Api_raises ''quota'')
     (build_data_dict ''2025-01-01 10:00:00'' example_inputs
        (score (scoring_block seq_sum example_inputs example_prospects))
        (verdict (score (scoring_block seq_sum example_inputs example_prospects)))) ''manual''
     (snd (snd (save_to_sheet_if_possible no_number Api_ok
        (build_data_dict ''2025-01-01 10:00:00'' example_inputs
           (score (scoring_block seq_sum example_inputs example_prospects))
           (verdict (score (scoring_block seq_sum example_inputs example_prospects))))
        ''PDF generated'' example_state))) =
   (False, Info_already_saved,
    snd (snd (save_to_sheet_if_possible no_number Api_ok
        (build_data_dict ''2025-01-01 10:00:00'' example_inputs
           (score (scoring_block seq_sum example_inputs example_prospects))
           (verdict (score (scoring_block seq_sum example_inputs example_prospects))))
        ''PDF generated'' example_state)))"
proof -
  have ok: "fst (save_to_sheet_if_possible no_number Api_ok
        (build_data_dict ''2025-01-01 10:00:00'' example_inputs
           (score (scoring_block seq_sum example_inputs example_prospects))
           (verdict (score (scoring_block seq_sum example_inputs example_prospects))))
        ''PDF generated'' example_state)"
    unfolding save_succeeds_iff by (simp add: example_state_def)
  have b: "best_sum seq_sum example_prospects = 105 / 10"
    unfolding best_sum_example by simp
  show ?thesis
    by (rule end_to_end_example[OF _ _ _ _ _ _ _ _ _ _ b ok])
      (simp_all add: example_inputs_def)
qed

end
